theory Spec2Isabelle
  imports Main
begin

section \<open>JavaScript values\<close>

text \<open>
  The documents, filters and patches of tg-db are plain JavaScript data. A value is
  \<open>undefined\<close>, \<open>null\<close>, a boolean, a number, a string, an array or a plain object.
  Functions, symbols, bigints, dates and class instances are outside this universe, and
  so are the members an object inherits from \<open>Object.prototype\<close> (\<open>constructor\<close>,
  \<open>toString\<close>, \<open>__proto__\<close>, ...): a property read sees own properties only.

  A number is \<open>NaN\<close>, an infinity, or a finite decimal \<open>m * 10 ^ e\<close> (\<open>Fin m e\<close>).
  The code never computes with numbers: it prints, parses and compares them, and each
  finite double is identified with the decimal that \<open>Number.prototype.toString\<close>
  prints for it. Negative zero is not distinguished from zero.

  A string is a list of code units; \<open>char\<close> covers the code units below 256.

  An object is the list of its own enumerable properties in the order in which
  \<open>Object.entries\<close>, the spread operator and \<open>JSON.stringify\<close> enumerate them. A
  write to an existing key keeps the key's place, a write to a new key appends (keys that
  are array indices would be enumerated first by JavaScript; such keys only arise here
  from spreading an array or a string, where they come in ascending order anyway).

  Arrays and objects have no identity in this universe. \<open>===\<close> on two arrays or two
  objects is reference identity in JavaScript; the model takes the two operands of every
  such comparison to be distinct references.
\<close>

datatype jsnum = NaN | PosInf | NegInf | Fin int int

datatype jsvalue =
    JUndefined
  | JNull
  | JBool bool
  | JNum jsnum
  | JStr string
  | JArr "jsvalue list"
  | JObj "(string \<times> jsvalue) list"

datatype error = Error (message: string)

subsection \<open>Numbers\<close>

text \<open>\<open>strip10 m\<close> removes the trailing decimal zeros of \<open>m\<close> and counts them.\<close>

function strip10 :: "nat \<Rightarrow> nat \<times> nat" where
  "strip10 m =
     (if m = 0 \<or> m mod 10 \<noteq> 0 then (m, 0)
      else (case strip10 (m div 10) of (m', k) \<Rightarrow> (m', Suc k)))"
  by pat_completeness auto
termination
  by (relation "measure id") auto

declare strip10.simps [simp del]

text \<open>The finite number \<open>m * 10 ^ e\<close> in normal form: no trailing zero in the mantissa.\<close>

definition mk_num :: "int \<Rightarrow> int \<Rightarrow> jsnum" where
  "mk_num m e =
     (if m = 0 then Fin 0 0
      else (case strip10 (nat \<bar>m\<bar>) of (m', k) \<Rightarrow> Fin (sgn m * int m') (e + int k)))"

definition num_of_nat :: "nat \<Rightarrow> jsnum" where
  "num_of_nat n = mk_num (int n) 0"

fun normal_num :: "jsnum \<Rightarrow> bool" where
  "normal_num (Fin m e) = (if m = 0 then e = 0 else m mod 10 \<noteq> 0)"
| "normal_num _ = True"

text \<open>
  Two finite decimals are equal when their normal forms are; they are ordered by scaling
  both to the smaller exponent.
\<close>

definition scaled :: "int \<Rightarrow> int \<Rightarrow> int \<Rightarrow> int" where
  "scaled m e e' = m * 10 ^ nat (e - min e e')"

fun num_eq :: "jsnum \<Rightarrow> jsnum \<Rightarrow> bool" where
  "num_eq NaN _ = False"
| "num_eq _ NaN = False"
| "num_eq (Fin m e) (Fin m' e') = (mk_num m e = mk_num m' e')"
| "num_eq PosInf PosInf = True"
| "num_eq NegInf NegInf = True"
| "num_eq _ _ = False"

text \<open>\<open>num_less a b\<close> is \<open>None\<close> when an operand is \<open>NaN\<close> (the comparison is undefined).\<close>

fun num_less :: "jsnum \<Rightarrow> jsnum \<Rightarrow> bool option" where
  "num_less NaN _ = None"
| "num_less _ NaN = None"
| "num_less (Fin m e) (Fin m' e') = Some (scaled m e e' < scaled m' e' e)"
| "num_less PosInf _ = Some False"
| "num_less _ PosInf = Some True"
| "num_less NegInf NegInf = Some False"
| "num_less NegInf _ = Some True"
| "num_less _ NegInf = Some False"

subsection \<open>Printing numbers\<close>

definition digit_char :: "nat \<Rightarrow> char" where
  "digit_char d = ''0123456789'' ! d"

function digits_of :: "nat \<Rightarrow> string" where
  "digits_of n = (if n < 10 then [digit_char n] else digits_of (n div 10) @ [digit_char (n mod 10)])"
  by pat_completeness auto
termination
  by (relation "measure id") auto

declare digits_of.simps [simp del]

definition int_to_string :: "int \<Rightarrow> string" where
  "int_to_string i = (if i < 0 then ''-'' else '''') @ digits_of (nat \<bar>i\<bar>)"

text \<open>
  \<open>Number::toString\<close> of ECMAScript for a finite non-zero number with decimal digits
  \<open>ds\<close> (\<open>k\<close> of them) and \<open>n = k + e\<close>: plain digits padded with zeros, digits with a
  decimal point, \<open>0.\<close> followed by zeros and the digits, or exponent notation.
\<close>

definition fin_to_string :: "int \<Rightarrow> int \<Rightarrow> string" where
  "fin_to_string m e =
     (let ds = digits_of (nat \<bar>m\<bar>);
          k = int (length ds);
          n = k + e;
          sign = (if m < 0 then ''-'' else '''')
      in if m = 0 then ''0''
         else if k \<le> n \<and> n \<le> 21 then sign @ ds @ replicate (nat (n - k)) (CHR ''0'')
         else if 0 < n \<and> n \<le> 21 then sign @ take (nat n) ds @ ''.'' @ drop (nat n) ds
         else if -6 < n \<and> n \<le> 0 then sign @ ''0.'' @ replicate (nat (- n)) (CHR ''0'') @ ds
         else sign @ take 1 ds @ (if k = 1 then '''' else ''.'' @ drop 1 ds)
              @ ''e'' @ (if 0 \<le> n - 1 then ''+'' else ''-'') @ digits_of (nat \<bar>n - 1\<bar>))"

fun num_to_string :: "jsnum \<Rightarrow> string" where
  "num_to_string NaN = ''NaN''"
| "num_to_string PosInf = ''Infinity''"
| "num_to_string NegInf = ''-Infinity''"
| "num_to_string (Fin m e) = fin_to_string m e"

subsection \<open>Equality, truthiness and property reads\<close>

text \<open>\<open>a === b\<close>.\<close>

fun strict_eq :: "jsvalue \<Rightarrow> jsvalue \<Rightarrow> bool" where
  "strict_eq JUndefined JUndefined = True"
| "strict_eq JNull JNull = True"
| "strict_eq (JBool a) (JBool b) = (a = b)"
| "strict_eq (JNum a) (JNum b) = num_eq a b"
| "strict_eq (JStr a) (JStr b) = (a = b)"
| "strict_eq _ _ = False"

text \<open>SameValueZero, the equality of \<open>Array.prototype.includes\<close> and of \<open>Map\<close> keys.\<close>

fun same_value_zero :: "jsvalue \<Rightarrow> jsvalue \<Rightarrow> bool" where
  "same_value_zero (JNum NaN) (JNum NaN) = True"
| "same_value_zero a b = strict_eq a b"

definition array_includes :: "jsvalue list \<Rightarrow> jsvalue \<Rightarrow> bool" where
  "array_includes xs v = list_ex (\<lambda>x. same_value_zero x v) xs"

fun truthy :: "jsvalue \<Rightarrow> bool" where
  "truthy JUndefined = False"
| "truthy JNull = False"
| "truthy (JBool b) = b"
| "truthy (JNum NaN) = False"
| "truthy (JNum (Fin m e)) = (m \<noteq> 0)"
| "truthy (JNum _) = True"
| "truthy (JStr s) = (s \<noteq> [])"
| "truthy (JArr _) = True"
| "truthy (JObj _) = True"

definition nullish :: "jsvalue \<Rightarrow> bool" where
  "nullish v = (v = JUndefined \<or> v = JNull)"

text \<open>
  A property key is an array index when it is the canonical decimal form of a natural
  number: \<open>index_of_key\<close> reads it back.
\<close>

definition digit_val :: "char \<Rightarrow> nat" where
  "digit_val c = of_char c - 48"

definition is_digit :: "char \<Rightarrow> bool" where
  "is_digit c = (c \<in> set ''0123456789'')"

definition nat_of_digits :: "string \<Rightarrow> nat" where
  "nat_of_digits ds = foldl (\<lambda>acc c. 10 * acc + digit_val c) 0 ds"

definition index_of_key :: "string \<Rightarrow> nat option" where
  "index_of_key k =
     (if k \<noteq> [] \<and> list_all is_digit k \<and> (k = ''0'' \<or> hd k \<noteq> CHR ''0'')
      then Some (nat_of_digits k) else None)"

text \<open>
  \<open>v[k]\<close> for a value that is neither \<open>undefined\<close> nor \<open>null\<close>: an own property of an
  object, an element or the length of an array, a code unit or the length of a string.
\<close>

fun get_prop :: "jsvalue \<Rightarrow> string \<Rightarrow> jsvalue" where
  "get_prop (JObj kvs) k = (case map_of kvs k of Some v \<Rightarrow> v | None \<Rightarrow> JUndefined)"
| "get_prop (JArr xs) k =
     (if k = ''length'' then JNum (num_of_nat (length xs))
      else (case index_of_key k of
              Some i \<Rightarrow> if i < length xs then xs ! i else JUndefined
            | None \<Rightarrow> JUndefined))"
| "get_prop (JStr s) k =
     (if k = ''length'' then JNum (num_of_nat (length s))
      else (case index_of_key k of
              Some i \<Rightarrow> if i < length s then JStr [s ! i] else JUndefined
            | None \<Rightarrow> JUndefined))"
| "get_prop _ k = JUndefined"

text \<open>\<open>v.k\<close>: a \<open>TypeError\<close> on \<open>undefined\<close> and \<open>null\<close>.\<close>

definition read_prop :: "jsvalue \<Rightarrow> string \<Rightarrow> error + jsvalue" where
  "read_prop v k =
     (if nullish v then Inl (Error (''Cannot read properties of null or undefined (reading '' @ k @ '')''))
      else Inr (get_prop v k))"

text \<open>\<open>v?.[k]\<close>.\<close>

definition opt_prop :: "jsvalue \<Rightarrow> string \<Rightarrow> jsvalue" where
  "opt_prop v k = (if nullish v then JUndefined else get_prop v k)"

text \<open>Writing an own property of an object; its removal.\<close>

fun set_field :: "string \<Rightarrow> jsvalue \<Rightarrow> (string \<times> jsvalue) list \<Rightarrow> (string \<times> jsvalue) list" where
  "set_field k v [] = [(k, v)]"
| "set_field k v ((k', v') # kvs) =
     (if k' = k then (k, v) # kvs else (k', v') # set_field k v kvs)"

text \<open>\<open>{...v}\<close>: the own enumerable properties of \<open>v\<close> as a fresh object.\<close>

fun index_fields :: "nat \<Rightarrow> jsvalue list \<Rightarrow> (string \<times> jsvalue) list" where
  "index_fields i [] = []"
| "index_fields i (x # xs) = (digits_of i, x) # index_fields (Suc i) xs"

fun spread :: "jsvalue \<Rightarrow> (string \<times> jsvalue) list" where
  "spread (JObj kvs) = kvs"
| "spread (JArr xs) = index_fields 0 xs"
| "spread (JStr s) = index_fields 0 (map (\<lambda>c. JStr [c]) s)"
| "spread _ = []"

subsection \<open>Coercions and the relational operators\<close>

text \<open>\<open>ToString\<close>; an array joins its elements with commas, as \<open>Array.prototype.join\<close>.\<close>

fun to_string :: "jsvalue \<Rightarrow> string"
  and join_elems :: "jsvalue list \<Rightarrow> string" where
  "to_string JUndefined = ''undefined''"
| "to_string JNull = ''null''"
| "to_string (JBool b) = (if b then ''true'' else ''false'')"
| "to_string (JNum n) = num_to_string n"
| "to_string (JStr s) = s"
| "to_string (JArr xs) = join_elems xs"
| "to_string (JObj kvs) = ''[object Object]''"
| "join_elems [] = []"
| "join_elems [x] = (if x = JUndefined \<or> x = JNull then [] else to_string x)"
| "join_elems (x # y # ys) =
     (if x = JUndefined \<or> x = JNull then [] else to_string x) @ '','' @ join_elems (y # ys)"

text \<open>\<open>ToPrimitive\<close> of the relational operators.\<close>

fun to_primitive :: "jsvalue \<Rightarrow> jsvalue" where
  "to_primitive (JArr xs) = JStr (join_elems xs)"
| "to_primitive (JObj kvs) = JStr ''[object Object]''"
| "to_primitive v = v"

definition is_js_space :: "char \<Rightarrow> bool" where
  "is_js_space c = (c \<in> set [CHR 0x09, CHR 0x0A, CHR 0x0B, CHR 0x0C, CHR 0x0D, CHR 0x20, CHR 0xA0])"

definition trim :: "string \<Rightarrow> string" where
  "trim s = rev (dropWhile is_js_space (rev (dropWhile is_js_space s)))"

text \<open>
  Scanning a decimal literal: the integer digits, the fraction digits after a point (if
  there is a point), the exponent (if there is one with at least one digit), and the
  rest of the input.
\<close>

definition scan_exponent :: "string \<Rightarrow> int option \<times> string" where
  "scan_exponent s =
     (case s of
        [] \<Rightarrow> (None, s)
      | c # t \<Rightarrow>
          if c = CHR ''e'' \<or> c = CHR ''E'' then
            (let neg = (case t of d # _ \<Rightarrow> d = CHR ''-'' | [] \<Rightarrow> False);
                 u = (case t of d # t' \<Rightarrow> if d = CHR ''+'' \<or> d = CHR ''-'' then t' else t | [] \<Rightarrow> t);
                 ds = takeWhile is_digit u
             in if ds = [] then (None, s)
                else (Some ((if neg then - 1 else 1) * int (nat_of_digits ds)), dropWhile is_digit u))
          else (None, s))"

definition scan_decimal :: "string \<Rightarrow> string \<times> string option \<times> int option \<times> string" where
  "scan_decimal s =
     (let ip = takeWhile is_digit s;
          r1 = dropWhile is_digit s;
          frac = (case r1 of c # t \<Rightarrow> if c = CHR ''.'' then Some (takeWhile is_digit t) else None | [] \<Rightarrow> None);
          r2 = (case r1 of c # t \<Rightarrow> if c = CHR ''.'' then dropWhile is_digit t else r1 | [] \<Rightarrow> r1);
          (ex, r3) = scan_exponent r2
      in (ip, frac, ex, r3))"

definition dec_value :: "bool \<Rightarrow> string \<Rightarrow> string option \<Rightarrow> int option \<Rightarrow> jsnum" where
  "dec_value neg ip frac ex =
     (let fp = (case frac of Some f \<Rightarrow> f | None \<Rightarrow> []);
          m = int (nat_of_digits (ip @ fp));
          e = (case ex of Some x \<Rightarrow> x | None \<Rightarrow> 0) - int (length fp)
      in mk_num (if neg then - m else m) e)"

definition radix_val :: "char \<Rightarrow> nat option" where
  "radix_val c =
     (if is_digit c then Some (digit_val c)
      else if c \<in> set ''abcdef'' then Some (of_char c - 87)
      else if c \<in> set ''ABCDEF'' then Some (of_char c - 55)
      else None)"

definition radix_number :: "nat \<Rightarrow> string \<Rightarrow> jsnum" where
  "radix_number b ds =
     (if ds \<noteq> [] \<and> list_all (\<lambda>c. case radix_val c of Some d \<Rightarrow> d < b | None \<Rightarrow> False) ds
      then mk_num (int (foldl (\<lambda>acc c. b * acc + (case radix_val c of Some d \<Rightarrow> d | None \<Rightarrow> 0)) 0 ds)) 0
      else NaN)"

text \<open>\<open>StringToNumber\<close>: what \<open>Number(s)\<close> gives for a string.\<close>

definition string_to_number :: "string \<Rightarrow> jsnum" where
  "string_to_number s =
     (let t = trim s in
      if t = [] then Fin 0 0
      else if take 2 t = ''0x'' \<or> take 2 t = ''0X'' then radix_number 16 (drop 2 t)
      else if take 2 t = ''0o'' \<or> take 2 t = ''0O'' then radix_number 8 (drop 2 t)
      else if take 2 t = ''0b'' \<or> take 2 t = ''0B'' then radix_number 2 (drop 2 t)
      else
        (let neg = (hd t = CHR ''-'');
             u = (if hd t = CHR ''+'' \<or> hd t = CHR ''-'' then tl t else t)
         in if u = ''Infinity'' then (if neg then NegInf else PosInf)
            else (case scan_decimal u of
                    (ip, frac, ex, rest) \<Rightarrow>
                      if rest = [] \<and> (ip \<noteq> [] \<or> (frac \<noteq> None \<and> frac \<noteq> Some []))
                      then dec_value neg ip frac ex else NaN)))"

fun to_number :: "jsvalue \<Rightarrow> jsnum" where
  "to_number JUndefined = NaN"
| "to_number JNull = Fin 0 0"
| "to_number (JBool b) = (if b then Fin 1 0 else Fin 0 0)"
| "to_number (JNum n) = n"
| "to_number (JStr s) = string_to_number s"
| "to_number (JArr xs) = string_to_number (join_elems xs)"
| "to_number (JObj kvs) = NaN"

text \<open>Strings compare by code units.\<close>

fun str_less :: "string \<Rightarrow> string \<Rightarrow> bool" where
  "str_less [] [] = False"
| "str_less [] (y # ys) = True"
| "str_less (x # xs) [] = False"
| "str_less (x # xs) (y # ys) =
     (if x = y then str_less xs ys else (of_char x :: nat) < of_char y)"

text \<open>
  The abstract relational comparison \<open>a < b\<close>: \<open>None\<close> when it is undefined (a \<open>NaN\<close>
  operand). The four operators of the language are read off it.
\<close>

definition js_less :: "jsvalue \<Rightarrow> jsvalue \<Rightarrow> bool option" where
  "js_less a b =
     (case (to_primitive a, to_primitive b) of
        (JStr x, JStr y) \<Rightarrow> Some (str_less x y)
      | (pa, pb) \<Rightarrow> num_less (to_number pa) (to_number pb))"

definition js_lt :: "jsvalue \<Rightarrow> jsvalue \<Rightarrow> bool" where
  "js_lt a b = (js_less a b = Some True)"

definition js_gt :: "jsvalue \<Rightarrow> jsvalue \<Rightarrow> bool" where
  "js_gt a b = (js_less b a = Some True)"

definition js_le :: "jsvalue \<Rightarrow> jsvalue \<Rightarrow> bool" where
  "js_le a b = (js_less b a = Some False)"

definition js_ge :: "jsvalue \<Rightarrow> jsvalue \<Rightarrow> bool" where
  "js_ge a b = (js_less a b = Some False)"

section \<open>JSON\<close>

subsection \<open>\<open>JSON.stringify\<close>\<close>

definition dquote :: char where
  "dquote = CHR 0x22"

definition backslash :: char where
  "backslash = CHR 0x5C"

definition hex_char :: "nat \<Rightarrow> char" where
  "hex_char d = ''0123456789abcdef'' ! d"

text \<open>\<open>QuoteJSONString\<close>: the two-character escapes, \<open>\u00XX\<close> for the other control
  characters, every other code unit as it is.\<close>

definition json_escape :: "char \<Rightarrow> string" where
  "json_escape c =
     (if c = dquote then [backslash, dquote]
      else if c = backslash then [backslash, backslash]
      else if c = CHR 0x08 then [backslash, CHR ''b'']
      else if c = CHR 0x0C then [backslash, CHR ''f'']
      else if c = CHR 0x0A then [backslash, CHR ''n'']
      else if c = CHR 0x0D then [backslash, CHR ''r'']
      else if c = CHR 0x09 then [backslash, CHR ''t'']
      else if (of_char c :: nat) < 32
        then [backslash, CHR ''u'', CHR ''0'', CHR ''0'',
              hex_char (of_char c div 16), hex_char (of_char c mod 16)]
      else [c])"

definition json_quote :: "string \<Rightarrow> string" where
  "json_quote s = dquote # concat (map json_escape s) @ [dquote]"

fun commas :: "string list \<Rightarrow> string" where
  "commas [] = []"
| "commas [x] = x"
| "commas (x # y # ys) = x @ '','' @ commas (y # ys)"

text \<open>
  \<open>JSON.stringify v\<close> is \<open>None\<close> where JavaScript returns \<open>undefined\<close>. A property whose
  value is \<open>undefined\<close> is left out of an object; an \<open>undefined\<close> element of an array
  is written \<open>null\<close>; \<open>NaN\<close> and the infinities are written \<open>null\<close>.
\<close>

fun JSON_stringify :: "jsvalue \<Rightarrow> string option"
  and stringify_elems :: "jsvalue list \<Rightarrow> string list"
  and stringify_members :: "(string \<times> jsvalue) list \<Rightarrow> string list" where
  "JSON_stringify JUndefined = None"
| "JSON_stringify JNull = Some ''null''"
| "JSON_stringify (JBool b) = Some (if b then ''true'' else ''false'')"
| "JSON_stringify (JNum (Fin m e)) = Some (fin_to_string m e)"
| "JSON_stringify (JNum NaN) = Some ''null''"
| "JSON_stringify (JNum PosInf) = Some ''null''"
| "JSON_stringify (JNum NegInf) = Some ''null''"
| "JSON_stringify (JStr s) = Some (json_quote s)"
| "JSON_stringify (JArr xs) = Some (''['' @ commas (stringify_elems xs) @ '']'')"
| "JSON_stringify (JObj kvs) = Some (''{'' @ commas (stringify_members kvs) @ ''}'')"
| "stringify_elems [] = []"
| "stringify_elems (x # xs) =
     (case JSON_stringify x of None \<Rightarrow> ''null'' | Some t \<Rightarrow> t) # stringify_elems xs"
| "stringify_members [] = []"
| "stringify_members ((k, v) # kvs) =
     (case JSON_stringify v of
        None \<Rightarrow> stringify_members kvs
      | Some t \<Rightarrow> (json_quote k @ '':'' @ t) # stringify_members kvs)"

subsection \<open>\<open>JSON.parse\<close>\<close>

definition is_json_ws :: "char \<Rightarrow> bool" where
  "is_json_ws c = (c \<in> set [CHR 0x20, CHR 0x09, CHR 0x0A, CHR 0x0D])"

definition skip_ws :: "string \<Rightarrow> string" where
  "skip_ws s = dropWhile is_json_ws s"

definition unescape :: "char \<Rightarrow> char option" where
  "unescape e =
     (if e = dquote then Some dquote
      else if e = backslash then Some backslash
      else if e = CHR ''/'' then Some (CHR ''/'')
      else if e = CHR ''b'' then Some (CHR 0x08)
      else if e = CHR ''f'' then Some (CHR 0x0C)
      else if e = CHR ''n'' then Some (CHR 0x0A)
      else if e = CHR ''r'' then Some (CHR 0x0D)
      else if e = CHR ''t'' then Some (CHR 0x09)
      else None)"

text \<open>The code unit of a \<open>\uXXXX\<close> escape; one above 255 is outside the model.\<close>

definition hex4 :: "string \<Rightarrow> char option" where
  "hex4 h =
     (if length h = 4 \<and> list_all (\<lambda>c. radix_val c \<noteq> None) h then
        (let n = foldl (\<lambda>acc c. 16 * acc + (case radix_val c of Some d \<Rightarrow> d | None \<Rightarrow> 0)) 0 h
         in if n < 256 then Some (char_of n) else None)
      else None)"

text \<open>The characters of a string literal after its opening quote, and what follows the
  closing quote.\<close>

fun parse_chars :: "string \<Rightarrow> (string \<times> string) option" where
  "parse_chars [] = None"
| "parse_chars (c # cs) =
     (if c = dquote then Some ([], cs)
      else if c = backslash then
        (case cs of
           [] \<Rightarrow> None
         | e # r \<Rightarrow>
             if e = CHR ''u'' then
               (case hex4 (take 4 r) of
                  None \<Rightarrow> None
                | Some ch \<Rightarrow>
                    (case parse_chars (drop 4 r) of
                       None \<Rightarrow> None
                     | Some (s, rest) \<Rightarrow> Some (ch # s, rest)))
             else
               (case unescape e of
                  None \<Rightarrow> None
                | Some ch \<Rightarrow>
                    (case parse_chars r of
                       None \<Rightarrow> None
                     | Some (s, rest) \<Rightarrow> Some (ch # s, rest))))
      else if (of_char c :: nat) < 32 then None
      else (case parse_chars cs of
              None \<Rightarrow> None
            | Some (s, rest) \<Rightarrow> Some (c # s, rest)))"

text \<open>A JSON number: an optional minus, an integer part without a leading zero, an
  optional fraction with at least one digit, an optional exponent.\<close>

definition parse_number :: "string \<Rightarrow> (jsvalue \<times> string) option" where
  "parse_number s =
     (let neg = (case s of c # _ \<Rightarrow> c = CHR ''-'' | [] \<Rightarrow> False);
          t = (if neg then tl s else s)
      in case scan_decimal t of
           (ip, frac, ex, rest) \<Rightarrow>
             if ip \<noteq> [] \<and> (ip = ''0'' \<or> hd ip \<noteq> CHR ''0'') \<and> frac \<noteq> Some []
             then Some (JNum (dec_value neg ip frac ex), rest)
             else None)"

text \<open>
  The recursive descent. The first argument bounds the number of nested calls; each call
  consumes at least one character, so \<open>JSON_parse\<close> starts with more than the length of
  the text. \<open>None\<close> is the \<open>SyntaxError\<close> of \<open>JSON.parse\<close>.
\<close>

fun parse_value :: "nat \<Rightarrow> string \<Rightarrow> (jsvalue \<times> string) option"
  and parse_elems :: "nat \<Rightarrow> string \<Rightarrow> (jsvalue list \<times> string) option"
  and parse_members :: "nat \<Rightarrow> string \<Rightarrow> ((string \<times> jsvalue) list \<times> string) option" where
  "parse_value 0 s = None"
| "parse_value (Suc n) s =
     (case skip_ws s of
        [] \<Rightarrow> None
      | c # r \<Rightarrow>
          if c = CHR ''{'' then
            (case skip_ws r of
               [] \<Rightarrow> None
             | d # r' \<Rightarrow>
                 if d = CHR ''}'' then Some (JObj [], r')
                 else (case parse_members n r of
                         None \<Rightarrow> None
                       | Some (kvs, rest) \<Rightarrow>
                           Some (JObj (foldl (\<lambda>obj (k, v). set_field k v obj) [] kvs), rest)))
          else if c = CHR ''['' then
            (case skip_ws r of
               [] \<Rightarrow> None
             | d # r' \<Rightarrow>
                 if d = CHR '']'' then Some (JArr [], r')
                 else (case parse_elems n r of
                         None \<Rightarrow> None
                       | Some (vs, rest) \<Rightarrow> Some (JArr vs, rest)))
          else if c = dquote then
            (case parse_chars r of None \<Rightarrow> None | Some (str, rest) \<Rightarrow> Some (JStr str, rest))
          else if c = CHR ''-'' \<or> is_digit c then parse_number (c # r)
          else if take 4 (c # r) = ''true'' then Some (JBool True, drop 4 (c # r))
          else if take 5 (c # r) = ''false'' then Some (JBool False, drop 5 (c # r))
          else if take 4 (c # r) = ''null'' then Some (JNull, drop 4 (c # r))
          else None)"
| "parse_elems 0 s = None"
| "parse_elems (Suc n) s =
     (case parse_value n s of
        None \<Rightarrow> None
      | Some (v, r) \<Rightarrow>
          (case skip_ws r of
             [] \<Rightarrow> None
           | c # r' \<Rightarrow>
               if c = CHR '','' then
                 (case parse_elems n r' of
                    None \<Rightarrow> None
                  | Some (vs, rest) \<Rightarrow> Some (v # vs, rest))
               else if c = CHR '']'' then Some ([v], r')
               else None))"
| "parse_members 0 s = None"
| "parse_members (Suc n) s =
     (case skip_ws s of
        [] \<Rightarrow> None
      | q # r0 \<Rightarrow>
          if q \<noteq> dquote then None
          else
            (case parse_chars r0 of
               None \<Rightarrow> None
             | Some (k, r1) \<Rightarrow>
                 (case skip_ws r1 of
                    [] \<Rightarrow> None
                  | c # r2 \<Rightarrow>
                      if c \<noteq> CHR '':'' then None
                      else
                        (case parse_value n r2 of
                           None \<Rightarrow> None
                         | Some (v, r3) \<Rightarrow>
                             (case skip_ws r3 of
                                [] \<Rightarrow> None
                              | d # r4 \<Rightarrow>
                                  if d = CHR '','' then
                                    (case parse_members n r4 of
                                       None \<Rightarrow> None
                                     | Some (kvs, rest) \<Rightarrow> Some ((k, v) # kvs, rest))
                                  else if d = CHR ''}'' then Some ([(k, v)], r4)
                                  else None)))))"

definition JSON_parse :: "string \<Rightarrow> jsvalue option" where
  "JSON_parse s =
     (case parse_value (Suc (length s)) s of
        None \<Rightarrow> None
      | Some (v, rest) \<Rightarrow> if skip_ws rest = [] then Some v else None)"

section \<open>The codec (utils.ts)\<close>

text \<open>
  \<open>encodeDocument\<close> is the template string \<open>`${prefix}${json}`\<close>; where \<open>JSON.stringify\<close>
  returns \<open>undefined\<close> the template prints the word.
\<close>

definition encodeDocument :: "jsvalue \<Rightarrow> string \<Rightarrow> string" where
  "encodeDocument doc prefix =
     prefix @ (case JSON_stringify doc of None \<Rightarrow> ''undefined'' | Some json \<Rightarrow> json)"

definition startsWith :: "string \<Rightarrow> string \<Rightarrow> bool" where
  "startsWith s p = (take (length p) s = p)"

text \<open>
  \<open>decodeDocument\<close> returns \<open>null\<close> (\<open>JNull\<close>) when the text does not start with the
  prefix or \<open>JSON.parse\<close> throws, and otherwise whatever \<open>JSON.parse\<close> returns.
\<close>

definition decodeDocument :: "string \<Rightarrow> string \<Rightarrow> jsvalue" where
  "decodeDocument messageText prefix =
     (if \<not> startsWith messageText prefix then JNull
      else (case JSON_parse (drop (length prefix) messageText) of
              None \<Rightarrow> JNull
            | Some v \<Rightarrow> v))"

section \<open>The filter engine (utils.ts)\<close>

text \<open>
  \<open>new RegExp(opValue).test(docValue)\<close> is the regular-expression engine of the
  runtime. It is a parameter of the filter engine: given the pattern value and the
  subject string it answers whether the pattern matches, or throws (the \<open>SyntaxError\<close>
  of an invalid pattern).
\<close>

type_synonym regex_engine = "jsvalue \<Rightarrow> string \<Rightarrow> error + bool"

text \<open>\<open>path.split('.')\<close>.\<close>

fun split_dot :: "string \<Rightarrow> string list" where
  "split_dot [] = [[]]"
| "split_dot (c # cs) =
     (if c = CHR ''.'' then [] # split_dot cs
      else (case split_dot cs of w # ws \<Rightarrow> (c # w) # ws | [] \<Rightarrow> [[c]]))"

definition getNestedValue :: "jsvalue \<Rightarrow> string \<Rightarrow> jsvalue" where
  "getNestedValue obj path = foldl opt_prop obj (split_dot path)"

text \<open>
  \<open>matchesOperators\<close> walks \<open>Object.entries(operators)\<close>; the first failing operator
  returns \<open>false\<close>, an unknown operator falls to \<open>default: break\<close>.
\<close>

fun matchesOperators :: "regex_engine \<Rightarrow> jsvalue \<Rightarrow> (string \<times> jsvalue) list \<Rightarrow> error + bool" where
  "matchesOperators rx docValue [] = Inr True"
| "matchesOperators rx docValue ((op, opValue) # rest) =
     (if op = ''$gt'' then
        (if \<not> js_gt docValue opValue then Inr False else matchesOperators rx docValue rest)
      else if op = ''$gte'' then
        (if \<not> js_ge docValue opValue then Inr False else matchesOperators rx docValue rest)
      else if op = ''$lt'' then
        (if \<not> js_lt docValue opValue then Inr False else matchesOperators rx docValue rest)
      else if op = ''$lte'' then
        (if \<not> js_le docValue opValue then Inr False else matchesOperators rx docValue rest)
      else if op = ''$ne'' then
        (if strict_eq docValue opValue then Inr False else matchesOperators rx docValue rest)
      else if op = ''$in'' then
        (case opValue of
           JArr xs \<Rightarrow>
             if \<not> array_includes xs docValue then Inr False else matchesOperators rx docValue rest
         | _ \<Rightarrow> Inr False)
      else if op = ''$nin'' then
        (case opValue of
           JArr xs \<Rightarrow>
             if array_includes xs docValue then Inr False else matchesOperators rx docValue rest
         | _ \<Rightarrow> matchesOperators rx docValue rest)
      else if op = ''$regex'' then
        (case docValue of
           JStr s \<Rightarrow>
             (case rx opValue s of
                Inl e \<Rightarrow> Inl e
              | Inr ok \<Rightarrow> if \<not> ok then Inr False else matchesOperators rx docValue rest)
         | _ \<Rightarrow> Inr False)
      else if op = ''$exists'' then
        (let exists = (docValue \<noteq> JUndefined \<and> docValue \<noteq> JNull)
         in if \<not> strict_eq opValue (JBool exists) then Inr False
            else matchesOperators rx docValue rest)
      else matchesOperators rx docValue rest)"

text \<open>
  \<open>matchesFilter\<close> walks \<open>Object.entries(filter)\<close>. The first statement of the loop body
  is the \<open>_id\<close> check; the value then goes through the same three branches as every other
  key. \<open>doc._id\<close> throws when \<open>doc\<close> is \<open>null\<close> or \<open>undefined\<close>.
\<close>

fun matchesFilter :: "regex_engine \<Rightarrow> jsvalue \<Rightarrow> (string \<times> jsvalue) list \<Rightarrow> error + bool" where
  "matchesFilter rx doc [] = Inr True"
| "matchesFilter rx doc ((key, val) # rest) =
     (case (if key = ''_id'' then read_prop doc ''_id'' else Inr JUndefined) of
        Inl e \<Rightarrow> Inl e
      | Inr doc_id \<Rightarrow>
          if key = ''_id'' \<and> \<not> strict_eq doc_id val then Inr False
          else
            (let docValue = getNestedValue doc key in
             case val of
               JObj operators \<Rightarrow>
                 (case matchesOperators rx docValue operators of
                    Inl e \<Rightarrow> Inl e
                  | Inr ok \<Rightarrow> if \<not> ok then Inr False else matchesFilter rx doc rest)
             | JArr xs \<Rightarrow>
                 if \<not> array_includes xs docValue then Inr False else matchesFilter rx doc rest
             | _ \<Rightarrow>
                 if \<not> strict_eq docValue val then Inr False else matchesFilter rx doc rest))"

subsection \<open>\<open>deepMerge\<close>\<close>

fun isObject :: "jsvalue \<Rightarrow> bool" where
  "isObject (JObj kvs) = True"
| "isObject _ = False"

definition has_key :: "(string \<times> jsvalue) list \<Rightarrow> string \<Rightarrow> bool" where
  "has_key kvs k = (map_of kvs k \<noteq> None)"

text \<open>
  \<open>output\<close> starts as \<open>{...target}\<close>. Only when target and source are both objects are
  the keys of the source written into it, one after the other (\<open>merge_keys\<close>, the
  \<open>forEach\<close>): an object-valued key that the target has is merged recursively, every
  other key is assigned.
\<close>

fun deepMerge :: "jsvalue \<Rightarrow> jsvalue \<Rightarrow> jsvalue"
  and merge_keys :: "(string \<times> jsvalue) list \<Rightarrow> (string \<times> jsvalue) list \<Rightarrow>
                     (string \<times> jsvalue) list \<Rightarrow> (string \<times> jsvalue) list" where
  "deepMerge target (JObj sfs) =
     (case target of
        JObj tfs \<Rightarrow> JObj (merge_keys tfs sfs tfs)
      | _ \<Rightarrow> JObj (spread target))"
| "deepMerge target JUndefined = JObj (spread target)"
| "deepMerge target JNull = JObj (spread target)"
| "deepMerge target (JBool b) = JObj (spread target)"
| "deepMerge target (JNum n) = JObj (spread target)"
| "deepMerge target (JStr s) = JObj (spread target)"
| "deepMerge target (JArr xs) = JObj (spread target)"
| "merge_keys tfs [] output = output"
| "merge_keys tfs ((key, sv) # sfs) output =
     merge_keys tfs sfs
       (if isObject sv then
          (if \<not> has_key tfs key then set_field key sv output
           else set_field key (deepMerge (get_prop (JObj tfs) key) sv) output)
        else set_field key sv output)"

section \<open>The store (TelegramDB.ts)\<close>

subsection \<open>The outside world\<close>

text \<open>
  The Telegram client, the clock and the random generator are not part of the
  repository. Each is an oracle that answers the call made at a given time, where time is
  the number of calls the store has made so far (\<open>clock\<close>): \<open>getMe\<close> and \<open>getChat\<close>
  succeed or throw, \<open>sendMessage\<close> returns the \<open>message_id\<close> of the new message or
  throws, \<open>deleteMessage\<close> succeeds or throws. Every theorem below holds for every such
  world.
\<close>

record env =
  getMe :: "nat \<Rightarrow> error option"
  getChat :: "nat \<Rightarrow> error option"
  sendMessage :: "nat \<Rightarrow> string \<Rightarrow> error + nat"
  deleteMessage :: "nat \<Rightarrow> jsvalue \<Rightarrow> error option"
  date_now :: "nat \<Rightarrow> nat"
  random_token :: "nat \<Rightarrow> string"
  regex :: regex_engine

text \<open>
  The fields of the class. The two \<open>Map\<close>s are lists of entries in insertion order.
  \<open>maxRetries\<close> is an integer. Two more fields record what the model needs to know about
  the world: \<open>clock\<close>, and \<open>channel\<close>, the messages that the store has sent to the chat
  and not deleted since.
\<close>

record store =
  prefix :: string
  maxRetries :: int
  initialized :: bool
  messageIndex :: "(jsvalue \<times> jsvalue) list"
  documentCache :: "(jsvalue \<times> jsvalue) list"
  indexMessageId :: "nat option"
  clock :: nat
  channel :: "(nat \<times> string) list"

text \<open>The constructor: \<open>config.messagePrefix || 'TDB:'\<close> and \<open>config.maxRetries || 3\<close>.\<close>

definition TelegramDB :: "string option \<Rightarrow> int option \<Rightarrow> store" where
  "TelegramDB messagePrefix retries =
     \<lparr> prefix = (case messagePrefix of Some p \<Rightarrow> if p = [] then ''TDB:'' else p | None \<Rightarrow> ''TDB:''),
       maxRetries = (case retries of Some n \<Rightarrow> if n = 0 then 3 else n | None \<Rightarrow> 3),
       initialized = False,
       messageIndex = [],
       documentCache = [],
       indexMessageId = None,
       clock = 0,
       channel = [] \<rparr>"

subsection \<open>\<open>Map\<close>\<close>

fun map_get :: "(jsvalue \<times> jsvalue) list \<Rightarrow> jsvalue \<Rightarrow> jsvalue" where
  "map_get [] k = JUndefined"
| "map_get ((k', v) # m) k = (if same_value_zero k' k then v else map_get m k)"

fun map_set :: "jsvalue \<Rightarrow> jsvalue \<Rightarrow> (jsvalue \<times> jsvalue) list \<Rightarrow> (jsvalue \<times> jsvalue) list" where
  "map_set k v [] = [(k, v)]"
| "map_set k v ((k', v') # m) =
     (if same_value_zero k' k then (k', v) # m else (k', v') # map_set k v m)"

definition map_delete :: "jsvalue \<Rightarrow> (jsvalue \<times> jsvalue) list \<Rightarrow> (jsvalue \<times> jsvalue) list" where
  "map_delete k m = filter (\<lambda>(k', v). \<not> same_value_zero k' k) m"

subsection \<open>Calls to the channel\<close>

definition tick :: "store \<Rightarrow> store" where
  "tick s = s\<lparr>clock := Suc (clock s)\<rparr>"

definition message_id_value :: "nat \<Rightarrow> jsvalue" where
  "message_id_value n = JNum (num_of_nat n)"

definition call_send :: "env \<Rightarrow> string \<Rightarrow> store \<Rightarrow> (error + nat) \<times> store" where
  "call_send w payload s =
     (case sendMessage w (clock s) payload of
        Inl e \<Rightarrow> (Inl e, tick s)
      | Inr mid \<Rightarrow> (Inr mid, tick (s\<lparr>channel := channel s @ [(mid, payload)]\<rparr>)))"

definition call_delete :: "env \<Rightarrow> jsvalue \<Rightarrow> store \<Rightarrow> error option \<times> store" where
  "call_delete w mid s =
     (case deleteMessage w (clock s) mid of
        Some e \<Rightarrow> (Some e, tick s)
      | None \<Rightarrow>
          (None, tick (s\<lparr>channel := filter (\<lambda>(i, p). message_id_value i \<noteq> mid) (channel s)\<rparr>)))"

text \<open>
  \<open>retryOperation\<close> for the operation \<open>sendMessage(chatId, message)\<close>: the loop runs while
  \<open>i < maxRetries\<close>, \<open>left\<close> is \<open>maxRetries - i\<close>. After the loop it throws \<open>lastError\<close>,
  which is still \<open>undefined\<close> (\<open>None\<close>) when the loop body never ran. The sleeps between
  attempts have no effect on the state.
\<close>

fun retry_loop :: "env \<Rightarrow> string \<Rightarrow> nat \<Rightarrow> error option \<Rightarrow> store \<Rightarrow> (error option + nat) \<times> store" where
  "retry_loop w payload 0 lastError s = (Inl lastError, s)"
| "retry_loop w payload (Suc left) lastError s =
     (case call_send w payload s of
        (Inr mid, s') \<Rightarrow> (Inr mid, s')
      | (Inl e, s') \<Rightarrow> retry_loop w payload left (Some e) s')"

definition retryOperation :: "env \<Rightarrow> string \<Rightarrow> int \<Rightarrow> store \<Rightarrow> (error option + nat) \<times> store" where
  "retryOperation w payload retries s = retry_loop w payload (nat retries) None s"

text \<open>
  What a \<open>catch (error)\<close> block reads as \<open>error.message\<close>: the message of an \<open>Error\<close>, and
  a \<open>TypeError\<close> of its own when the thrown value is \<open>undefined\<close>.
\<close>

definition message_of :: "error option \<Rightarrow> error + string" where
  "message_of thrown =
     (case thrown of
        Some (Error m) \<Rightarrow> Inr m
      | None \<Rightarrow> Inl (Error ''Cannot read properties of undefined (reading message)''))"

subsection \<open>Results\<close>

record OperationResult =
  success :: bool
  message :: "string option"
  data :: jsvalue
  error :: "error option"

definition failed :: "string \<Rightarrow> error option \<Rightarrow> OperationResult" where
  "failed msg e = \<lparr> success = False, message = Some msg, data = JUndefined, error = e \<rparr>"

definition succeeded :: "string \<Rightarrow> jsvalue \<Rightarrow> OperationResult" where
  "succeeded msg d = \<lparr> success = True, message = Some msg, data = d, error = None \<rparr>"

text \<open>
  A \<open>catch (error)\<close> block that returns
  \<open>{ success: false, error, message: `<what>: ${error.message}` }\<close>.
\<close>

definition catch_result :: "string \<Rightarrow> error option \<Rightarrow> error + OperationResult" where
  "catch_result what thrown =
     (case message_of thrown of
        Inl e \<Rightarrow> Inl e
      | Inr m \<Rightarrow> Inr (failed (what @ '': '' @ m) thrown))"

subsection \<open>Initialisation\<close>

text \<open>
  \<open>initialize\<close>: \<open>getMe\<close>, \<open>getChat\<close>, \<open>loadMessageIndex\<close> (which clears both maps) and
  the registration of the listener; any throw is rethrown as
  \<open>Failed to initialize Telegram DB: ...\<close>. \<open>ensureInitialized\<close> calls it when the flag is
  not set.
\<close>

definition loadMessageIndex :: "store \<Rightarrow> store" where
  "loadMessageIndex s = s\<lparr>messageIndex := [], documentCache := []\<rparr>"

definition initialize :: "env \<Rightarrow> store \<Rightarrow> (error + unit) \<times> store" where
  "initialize w s =
     (if initialized s then (Inr (), s)
      else
        (case getMe w (clock s) of
           Some (Error m) \<Rightarrow>
             (Inl (Error (''Failed to initialize Telegram DB: Error: '' @ m)), tick s)
         | None \<Rightarrow>
             (case getChat w (clock (tick s)) of
                Some (Error m) \<Rightarrow>
                  (Inl (Error (''Failed to initialize Telegram DB: Error: '' @ m)), tick (tick s))
              | None \<Rightarrow>
                  (Inr (), (loadMessageIndex (tick (tick s)))\<lparr>initialized := True\<rparr>))))"

definition ensureInitialized :: "env \<Rightarrow> store \<Rightarrow> (error + unit) \<times> store" where
  "ensureInitialized w s = (if \<not> initialized s then initialize w s else (Inr (), s))"

definition close :: "store \<Rightarrow> store" where
  "close s = s\<lparr>initialized := False\<rparr>"

subsection \<open>The snapshot\<close>

text \<open>
  \<open>saveMessageIndex\<close> never throws: the previous snapshot message is deleted when
  \<open>indexMessageId\<close> is truthy, a new one is sent when the index is not empty, and both
  calls swallow their errors.
\<close>

definition index_document :: "store \<Rightarrow> nat \<Rightarrow> jsvalue" where
  "index_document s now =
     JObj [(''_id'', JStr ''__INDEX__''),
           (''_table'', JStr ''__SYSTEM__''),
           (''messageIndex'', JArr (map (\<lambda>(k, v). JArr [k, v]) (messageIndex s))),
           (''documents'', JArr (map snd (documentCache s))),
           (''updatedAt'', JNum (num_of_nat now))]"

definition saveMessageIndex :: "env \<Rightarrow> store \<Rightarrow> store" where
  "saveMessageIndex w s =
     (let indexData = index_document s (date_now w (clock s));
          s1 = tick s;
          indexMessage = encodeDocument indexData (prefix s1 @ ''INDEX:'');
          s2 = (case indexMessageId s1 of
                  None \<Rightarrow> s1
                | Some n \<Rightarrow> if n = 0 then s1 else snd (call_delete w (message_id_value n) s1))
      in if messageIndex s2 \<noteq> [] then
           (case call_send w indexMessage s2 of
              (Inr mid, s3) \<Rightarrow> s3\<lparr>indexMessageId := Some mid\<rparr>
            | (Inl e, s3) \<Rightarrow> s3)
         else s2)"

subsection \<open>\<open>insert\<close> and \<open>insertMany\<close>\<close>

definition generateId :: "env \<Rightarrow> store \<Rightarrow> string \<times> store" where
  "generateId w s =
     (num_to_string (num_of_nat (date_now w (clock s))) @ ''-'' @ random_token w (clock s), tick s)"

text \<open>
  A result \<open>Inl e\<close> of an operation is an exception that leaves the public method; a
  failed \<open>OperationResult\<close> is \<open>Inr\<close> of a record with \<open>success = False\<close>.
\<close>

definition insert_body :: "env \<Rightarrow> (string \<times> jsvalue) list \<Rightarrow> string \<Rightarrow> store \<Rightarrow> (error + OperationResult) \<times> store" where
  "insert_body w doc table s =
     (let given = get_prop (JObj doc) ''_id'';
          (doc_id, s1) = (if truthy given then (given, s)
                          else (case generateId w s of (i, s') \<Rightarrow> (JStr i, s')));
          document = set_field ''_table'' (JStr table) (set_field ''_id'' doc_id doc);
          msg = encodeDocument (JObj document) (prefix s1)
      in case retryOperation w msg (maxRetries s1) s1 of
           (Inl thrown, s2) \<Rightarrow> (catch_result ''Failed to insert document'' thrown, s2)
         | (Inr mid, s2) \<Rightarrow>
             (let s3 = s2\<lparr>messageIndex := map_set doc_id (message_id_value mid) (messageIndex s2),
                          documentCache := map_set doc_id (JObj document) (documentCache s2)\<rparr>;
                  s4 = saveMessageIndex w s3
              in (Inr (succeeded ''Document inserted successfully''
                         (JObj (set_field ''_messageId'' (message_id_value mid) document))), s4)))"

definition insert :: "env \<Rightarrow> (string \<times> jsvalue) list \<Rightarrow> string \<Rightarrow> store \<Rightarrow> (error + OperationResult) \<times> store" where
  "insert w doc table s =
     (case ensureInitialized w s of
        (Inl e, s1) \<Rightarrow> (Inl e, s1)
      | (Inr u, s1) \<Rightarrow> insert_body w doc table s1)"

fun insertMany_loop :: "env \<Rightarrow> (string \<times> jsvalue) list list \<Rightarrow> string \<Rightarrow> bool \<Rightarrow> OperationResult list \<Rightarrow> store \<Rightarrow> (error + OperationResult list) \<times> store" where
  "insertMany_loop w [] table stopOnError results s = (Inr results, s)"
| "insertMany_loop w (doc # docs) table stopOnError results s =
     (case insert w doc table s of
        (Inl e, s1) \<Rightarrow> (Inl e, s1)
      | (Inr r, s1) \<Rightarrow>
          if \<not> success r \<and> stopOnError then (Inr (results @ [r]), s1)
          else insertMany_loop w docs table stopOnError (results @ [r]) s1)"

definition insertMany :: "env \<Rightarrow> (string \<times> jsvalue) list list \<Rightarrow> string \<Rightarrow> bool \<Rightarrow> store \<Rightarrow> (error + OperationResult list) \<times> store" where
  "insertMany w docs table stopOnError s =
     (case ensureInitialized w s of
        (Inl e, s1) \<Rightarrow> (Inl e, s1)
      | (Inr u, s1) \<Rightarrow> insertMany_loop w docs table stopOnError [] s1)"

subsection \<open>\<open>find\<close>\<close>

text \<open>
  One pass of \<open>for (const [docId, doc] of this.documentCache.entries())\<close>: the documents
  that match, in the order of the cache; a throw of \<open>matchesFilter\<close> ends the pass.
\<close>

fun scan :: "regex_engine \<Rightarrow> (string \<times> jsvalue) list \<Rightarrow> jsvalue list \<Rightarrow> error + jsvalue list" where
  "scan rx query [] = Inr []"
| "scan rx query (doc # docs) =
     (case matchesFilter rx doc query of
        Inl e \<Rightarrow> Inl e
      | Inr ok \<Rightarrow>
          (case scan rx query docs of
             Inl e \<Rightarrow> Inl e
           | Inr found \<Rightarrow> Inr (if ok then doc # found else found)))"

text \<open>
  \<open>reloadCacheFromIndex\<close>: its body is \<open>if (this.indexMessageId) { }\<close> inside a
  \<open>try\<close>; the block holds only the comment "Cache populated as operations happen".
\<close>

definition reloadCacheFromIndex :: "store \<Rightarrow> store" where
  "reloadCacheFromIndex s = (if indexMessageId s \<noteq> None \<and> indexMessageId s \<noteq> Some 0 then s else s)"

text \<open>
  The \<open>try\<close> block of \<open>find\<close>. When the cache is empty after the first pass,
  \<open>reloadCacheFromIndex\<close> is called and a second pass appends its matches. The \<open>catch\<close>
  block rethrows: \<open>throw new Error(`Failed to find documents: ${error.message}`)\<close>.
\<close>

definition find_body :: "env \<Rightarrow> (string \<times> jsvalue) list \<Rightarrow> string \<Rightarrow> store \<Rightarrow> (error + jsvalue list) \<times> store" where
  "find_body w flt table s =
     (let queryWithTable = set_field ''_table'' (JStr table) flt in
      case scan (regex w) queryWithTable (map snd (documentCache s)) of
        Inl e \<Rightarrow> (Inl e, s)
      | Inr documents \<Rightarrow>
          if documentCache s = [] then
            (let s1 = reloadCacheFromIndex s in
             case scan (regex w) queryWithTable (map snd (documentCache s1)) of
               Inl e \<Rightarrow> (Inl e, s1)
             | Inr again \<Rightarrow> (Inr (documents @ again), s1))
          else (Inr documents, s))"

definition find :: "env \<Rightarrow> (string \<times> jsvalue) list \<Rightarrow> string \<Rightarrow> store \<Rightarrow> (error + jsvalue list) \<times> store" where
  "find w flt table s =
     (case ensureInitialized w s of
        (Inl e, s1) \<Rightarrow> (Inl e, s1)
      | (Inr u, s1) \<Rightarrow>
          (case find_body w flt table s1 of
             (Inl (Error m), s2) \<Rightarrow> (Inl (Error (''Failed to find documents: '' @ m)), s2)
           | (Inr documents, s2) \<Rightarrow> (Inr documents, s2)))"

definition findOne :: "env \<Rightarrow> (string \<times> jsvalue) list \<Rightarrow> string \<Rightarrow> store \<Rightarrow> (error + jsvalue) \<times> store" where
  "findOne w flt table s =
     (case find w flt table s of
        (Inl e, s1) \<Rightarrow> (Inl e, s1)
      | (Inr results, s1) \<Rightarrow> (Inr (case results of [] \<Rightarrow> JNull | d # ds \<Rightarrow> d), s1))"

definition findById :: "env \<Rightarrow> string \<Rightarrow> string \<Rightarrow> store \<Rightarrow> (error + jsvalue) \<times> store" where
  "findById w ident table s = findOne w [(''_id'', JStr ident)] table s"

text \<open>
  \<open>update\<close>, \<open>delete\<close> and \<open>count\<close> resolve their matches with
  \<open>find({}, table).then(docs => docs.filter(doc => matchesFilter(doc, queryWithTable)))\<close>.
\<close>

definition resolve :: "env \<Rightarrow> (string \<times> jsvalue) list \<Rightarrow> string \<Rightarrow> store \<Rightarrow> (error + jsvalue list) \<times> store" where
  "resolve w flt table s =
     (case find w [] table s of
        (Inl e, s1) \<Rightarrow> (Inl e, s1)
      | (Inr docs, s1) \<Rightarrow> (scan (regex w) (set_field ''_table'' (JStr table) flt) docs, s1))"

definition count :: "env \<Rightarrow> (string \<times> jsvalue) list \<Rightarrow> string \<Rightarrow> store \<Rightarrow> (error + nat) \<times> store" where
  "count w flt table s =
     (case resolve w flt table s of
        (Inl e, s1) \<Rightarrow> (Inl e, s1)
      | (Inr documents, s1) \<Rightarrow> (Inr (length documents), s1))"

subsection \<open>\<open>update\<close>\<close>

record UpdateOptions =
  upsert :: bool
  replace :: bool

text \<open>
  The document that replaces a match: \<open>{ ...update, _id: doc._id }\<close> with \<open>replace\<close>,
  \<open>deepMerge(doc, { ...update, _id: doc._id })\<close> without.
\<close>

definition updated_document :: "bool \<Rightarrow> jsvalue \<Rightarrow> jsvalue \<Rightarrow> (string \<times> jsvalue) list \<Rightarrow> jsvalue" where
  "updated_document repl doc doc_id patch =
     (if repl then JObj (set_field ''_id'' doc_id patch)
      else deepMerge doc (JObj (set_field ''_id'' doc_id patch)))"

text \<open>
  The loop \<open>for (const doc of documents)\<close> of \<open>update\<close>. Nothing in the loop catches a
  throw of \<open>retryOperation\<close>: it leaves the loop and reaches the \<open>catch\<close> of the method.
\<close>

fun update_loop :: "env \<Rightarrow> (string \<times> jsvalue) list \<Rightarrow> bool \<Rightarrow> jsvalue list \<Rightarrow> jsvalue list \<Rightarrow> store \<Rightarrow> (error option + jsvalue list) \<times> store" where
  "update_loop w patch repl [] updatedDocs s = (Inr updatedDocs, s)"
| "update_loop w patch repl (doc # documents) updatedDocs s =
     (case read_prop doc ''_id'' of
        Inl e \<Rightarrow> (Inl (Some e), s)
      | Inr doc_id \<Rightarrow>
          (let updated = updated_document repl doc doc_id patch;
               oldMessageId = map_get (messageIndex s) doc_id;
               s1 = (if truthy oldMessageId then snd (call_delete w oldMessageId s) else s);
               msg = encodeDocument updated (prefix s1)
           in case retryOperation w msg (maxRetries s1) s1 of
                (Inl thrown, s2) \<Rightarrow> (Inl thrown, s2)
              | (Inr mid, s2) \<Rightarrow>
                  (let new_id = get_prop updated ''_id'';
                       s3 = s2\<lparr>messageIndex := map_set new_id (message_id_value mid) (messageIndex s2),
                               documentCache := map_set new_id updated (documentCache s2)\<rparr>
                   in update_loop w patch repl documents (updatedDocs @ [updated]) s3)))"

text \<open>What \<open>update\<close> does with the documents it has resolved.\<close>

definition update_documents :: "env \<Rightarrow> (string \<times> jsvalue) list \<Rightarrow> (string \<times> jsvalue) list \<Rightarrow> string \<Rightarrow> UpdateOptions \<Rightarrow> jsvalue list \<Rightarrow> store \<Rightarrow> (error option + OperationResult) \<times> store" where
  "update_documents w flt patch table options documents s =
     (if documents = [] \<and> upsert options then
        (let newDoc = deepMerge (JObj flt) (JObj patch) in
         case insert w (spread newDoc) table s of
           (Inl e, s1) \<Rightarrow> (Inl (Some e), s1)
         | (Inr r, s1) \<Rightarrow> (Inr r, s1))
      else if documents = [] then
        (Inr \<lparr> success = False, message = Some ''No documents found to update'',
               data = JUndefined, error = None \<rparr>, s)
      else
        (case update_loop w patch (replace options) documents [] s of
           (Inl thrown, s1) \<Rightarrow> (Inl thrown, s1)
         | (Inr updatedDocs, s1) \<Rightarrow>
             (Inr (succeeded (''Updated '' @ digits_of (length updatedDocs) @ '' document(s)'')
                     (JArr updatedDocs)),
              saveMessageIndex w s1)))"

definition update_body :: "env \<Rightarrow> (string \<times> jsvalue) list \<Rightarrow> (string \<times> jsvalue) list \<Rightarrow> string \<Rightarrow> UpdateOptions \<Rightarrow> store \<Rightarrow> (error option + OperationResult) \<times> store" where
  "update_body w flt patch table options s =
     (case resolve w flt table s of
        (Inl e, s1) \<Rightarrow> (Inl (Some e), s1)
      | (Inr documents, s1) \<Rightarrow> update_documents w flt patch table options documents s1)"

definition update :: "env \<Rightarrow> (string \<times> jsvalue) list \<Rightarrow> (string \<times> jsvalue) list \<Rightarrow> string \<Rightarrow> UpdateOptions \<Rightarrow> store \<Rightarrow> (error + OperationResult) \<times> store" where
  "update w flt patch table options s =
     (case ensureInitialized w s of
        (Inl e, s1) \<Rightarrow> (Inl e, s1)
      | (Inr u, s1) \<Rightarrow>
          (case update_body w flt patch table options s1 of
             (Inl thrown, s2) \<Rightarrow> (catch_result ''Failed to update documents'' thrown, s2)
           | (Inr r, s2) \<Rightarrow> (Inr r, s2)))"

definition updateById :: "env \<Rightarrow> string \<Rightarrow> (string \<times> jsvalue) list \<Rightarrow> string \<Rightarrow> UpdateOptions \<Rightarrow> store \<Rightarrow> (error + OperationResult) \<times> store" where
  "updateById w ident patch table options s =
     Spec2Isabelle.update w [(''_id'', JStr ident)] patch table options s"

subsection \<open>\<open>delete\<close>\<close>

text \<open>
  The loop \<open>for (const doc of documents)\<close> of \<open>delete\<close>. A document is touched only
  under \<open>if (messageId)\<close>; there both the \<open>try\<close> and the \<open>catch\<close> branch remove it from
  the two maps, and only the \<open>try\<close> branch counts it.
\<close>

fun delete_loop :: "env \<Rightarrow> jsvalue list \<Rightarrow> nat \<Rightarrow> store \<Rightarrow> (error option + nat) \<times> store" where
  "delete_loop w [] deletedCount s = (Inr deletedCount, s)"
| "delete_loop w (doc # documents) deletedCount s =
     (case read_prop doc ''_id'' of
        Inl e \<Rightarrow> (Inl (Some e), s)
      | Inr doc_id \<Rightarrow>
          (let messageId = map_get (messageIndex s) doc_id in
           if truthy messageId then
             (case call_delete w messageId s of
                (None, s1) \<Rightarrow>
                  delete_loop w documents (Suc deletedCount)
                    (s1\<lparr>messageIndex := map_delete doc_id (messageIndex s1),
                        documentCache := map_delete doc_id (documentCache s1)\<rparr>)
              | (Some e, s1) \<Rightarrow>
                  delete_loop w documents deletedCount
                    (s1\<lparr>messageIndex := map_delete doc_id (messageIndex s1),
                        documentCache := map_delete doc_id (documentCache s1)\<rparr>))
           else delete_loop w documents deletedCount s))"

text \<open>What \<open>delete\<close> does with the documents it has resolved.\<close>

definition delete_documents :: "env \<Rightarrow> jsvalue list \<Rightarrow> store \<Rightarrow> (error option + OperationResult) \<times> store" where
  "delete_documents w documents s =
     (if documents = [] then
        (Inr \<lparr> success = False, message = Some ''No documents found to delete'',
               data = JUndefined, error = None \<rparr>, s)
      else
        (case delete_loop w documents 0 s of
           (Inl thrown, s1) \<Rightarrow> (Inl thrown, s1)
         | (Inr deletedCount, s1) \<Rightarrow>
             (Inr (succeeded (''Deleted '' @ digits_of deletedCount @ '' document(s)'')
                     (JObj [(''deletedCount'', JNum (num_of_nat deletedCount))])),
              saveMessageIndex w s1)))"

definition delete_body :: "env \<Rightarrow> (string \<times> jsvalue) list \<Rightarrow> string \<Rightarrow> store \<Rightarrow> (error option + OperationResult) \<times> store" where
  "delete_body w flt table s =
     (case resolve w flt table s of
        (Inl e, s1) \<Rightarrow> (Inl (Some e), s1)
      | (Inr documents, s1) \<Rightarrow> delete_documents w documents s1)"

definition delete :: "env \<Rightarrow> (string \<times> jsvalue) list \<Rightarrow> string \<Rightarrow> store \<Rightarrow> (error + OperationResult) \<times> store" where
  "delete w flt table s =
     (case ensureInitialized w s of
        (Inl e, s1) \<Rightarrow> (Inl e, s1)
      | (Inr u, s1) \<Rightarrow>
          (case delete_body w flt table s1 of
             (Inl thrown, s2) \<Rightarrow> (catch_result ''Failed to delete documents'' thrown, s2)
           | (Inr r, s2) \<Rightarrow> (Inr r, s2)))"

definition deleteById :: "env \<Rightarrow> string \<Rightarrow> string \<Rightarrow> store \<Rightarrow> (error + OperationResult) \<times> store" where
  "deleteById w ident table s = delete w [(''_id'', JStr ident)] table s"

definition deleteAll :: "env \<Rightarrow> string \<Rightarrow> store \<Rightarrow> (error + OperationResult) \<times> store" where
  "deleteAll w table s = delete w [] table s"


subsection \<open>The message listener\<close>





section \<open>Notions used in the statements\<close>

text \<open>The case labels of \<open>matchesOperators\<close>.\<close>

definition recognized_operators :: "string list" where
  "recognized_operators =
     [''$gt'', ''$gte'', ''$lt'', ''$lte'', ''$ne'', ''$in'', ''$nin'', ''$regex'', ''$exists'']"

text \<open>
  A value that JSON can carry: no \<open>undefined\<close>, no \<open>NaN\<close>, no infinity anywhere in it.
  (That the keys of an object are distinct and that a finite number is in normal form
  holds of every JavaScript value; it is part of the predicate because the datatype does
  not enforce it.)
\<close>

fun json_safe :: "jsvalue \<Rightarrow> bool"
  and json_safe_elems :: "jsvalue list \<Rightarrow> bool"
  and json_safe_members :: "(string \<times> jsvalue) list \<Rightarrow> bool" where
  "json_safe JUndefined = False"
| "json_safe JNull = True"
| "json_safe (JBool b) = True"
| "json_safe (JNum n) = (case n of Fin m e \<Rightarrow> normal_num n | _ \<Rightarrow> False)"
| "json_safe (JStr s) = True"
| "json_safe (JArr xs) = json_safe_elems xs"
| "json_safe (JObj kvs) = (distinct (map fst kvs) \<and> json_safe_members kvs)"
| "json_safe_elems [] = True"
| "json_safe_elems (x # xs) = (json_safe x \<and> json_safe_elems xs)"
| "json_safe_members [] = True"
| "json_safe_members ((k, v) # kvs) = (json_safe v \<and> json_safe_members kvs)"




text \<open>
  The number of documents of \<open>docs\<close> whose channel-delete succeeds when \<open>delete\<close> works
  through them from the state \<open>s\<close>: the \<open>i\<close>-th document is deleted by the call made at
  time \<open>clock s + i\<close>.
\<close>

definition channel_deletes :: "env \<Rightarrow> store \<Rightarrow> jsvalue list \<Rightarrow> nat" where
  "channel_deletes w s docs =
     length (filter (\<lambda>i. deleteMessage w (clock s + i)
                            (map_get (messageIndex s) (get_prop (docs ! i) ''_id'')) = None)
               [0..<length docs])"

text \<open>The documents of a table among the cached ones.\<close>

definition table_documents :: "store \<Rightarrow> string \<Rightarrow> jsvalue list" where
  "table_documents s table =
     filter (\<lambda>d. strict_eq (opt_prop d ''_table'') (JStr table)) (map snd (documentCache s))"

subsection \<open>A world for the examples\<close>

text \<open>
  An engine for patterns without metacharacters: the pattern matches where it occurs in
  the subject. The pattern \<open>(\<close> is the \<open>SyntaxError\<close> that \<open>new RegExp("(")\<close> throws.
\<close>

fun occurs_in :: "string \<Rightarrow> string \<Rightarrow> bool" where
  "occurs_in p [] = (p = [])"
| "occurs_in p (c # cs) = (take (length p) (c # cs) = p \<or> occurs_in p cs)"

definition literal_regex :: regex_engine where
  "literal_regex pat subject =
     (if to_string pat = ''('' then Inl (Error ''Invalid regular expression: /(/: Unterminated group'')
      else Inr (occurs_in (to_string pat) subject))"

text \<open>
  A world in which the calls made at the times \<open>send_faults\<close> to \<open>sendMessage\<close> and at the
  times \<open>delete_faults\<close> to \<open>deleteMessage\<close> throw and every other call succeeds; a message
  sent at time \<open>t\<close> gets the id \<open>t + 1\<close>.
\<close>

definition scripted_world :: "nat list \<Rightarrow> nat list \<Rightarrow> env" where
  "scripted_world send_faults delete_faults =
     \<lparr> getMe = (\<lambda>t. None),
       getChat = (\<lambda>t. None),
       sendMessage = (\<lambda>t payload. if t \<in> set send_faults then Inl (Error ''send failed'') else Inr (Suc t)),
       deleteMessage = (\<lambda>t mid. if t \<in> set delete_faults then Some (Error ''delete failed'') else None),
       date_now = (\<lambda>t. 1000 + t),
       random_token = (\<lambda>t. ''k3j9x2m1q'' @ digits_of t),
       regex = literal_regex \<rparr>"

text \<open>A world whose bot token is rejected: \<open>getMe\<close> throws.\<close>

definition offline_world :: env where
  "offline_world = (scripted_world [] [])\<lparr>getMe := (\<lambda>t. Some (Error ''401: Unauthorized''))\<rparr>"

subsection \<open>A store for the examples\<close>

text \<open>
  Three users and an order, and the store that four calls of \<open>insert\<close> build from a new
  \<open>TelegramDB\<close> in a world without faults.
\<close>

definition john :: "(string \<times> jsvalue) list" where
  "john = [(''_id'', JStr ''u1''), (''name'', JStr ''John''), (''age'', JNum (Fin 3 1))]"

definition jane :: "(string \<times> jsvalue) list" where
  "jane = [(''_id'', JStr ''u2''), (''name'', JStr ''Jane''), (''age'', JNum (Fin 25 0))]"

definition joe :: "(string \<times> jsvalue) list" where
  "joe = [(''_id'', JStr ''u3''), (''name'', JStr ''Joe''), (''age'', JNum (Fin 41 0))]"

definition invoice :: "(string \<times> jsvalue) list" where
  "invoice = [(''_id'', JStr ''o1''), (''total'', JNum (Fin 995 (- 1)))]"

definition demo_store :: store where
  "demo_store =
     snd (insert (scripted_world [] []) invoice ''orders''
       (snd (insert (scripted_world [] []) joe ''users''
         (snd (insert (scripted_world [] []) jane ''users''
           (snd (insert (scripted_world [] []) john ''users'' (TelegramDB None None))))))))"

section \<open>Properties\<close>

subsection \<open>The filter engine\<close>

lemma matchesOperators_recognized:
  "matchesOperators rx d ops =
   matchesOperators rx d (filter (\<lambda>(op, opValue). op \<in> set recognized_operators) ops)"
proof (induction ops arbitrary: d)
  case Nil
  show ?case by simp
next
  case (Cons a ops)
  obtain op v where a: "a = (op, v)" by (cases a)
  show ?case
  proof (cases "op \<in> set recognized_operators")
    case True
    then show ?thesis
      by (simp add: a Cons.IH cong: jsvalue.case_cong sum.case_cong if_cong)
  next
    case False
    then have "matchesOperators rx d (a # ops) = matchesOperators rx d ops"
      by (simp add: a recognized_operators_def)
    with False show ?thesis by (simp add: a Cons.IH)
  qed
qed

lemma matchesOperators_unrecognized:
  "list_all (\<lambda>(op, opValue). op \<notin> set recognized_operators) ops \<Longrightarrow>
   matchesOperators rx d ops = Inr True"
  by (induction ops) (auto simp: recognized_operators_def)

text \<open>
  Claim C10. An operator key other than \<open>$gt\<close>, \<open>$gte\<close>, \<open>$lt\<close>, \<open>$lte\<close>, \<open>$ne\<close>, \<open>$in\<close>,
  \<open>$nin\<close>, \<open>$regex\<close> and \<open>$exists\<close> is ignored by \<open>matchesOperators\<close>: the result is
  that of the operator object without the unrecognized entries, and an operator object
  whose keys are all unrecognized matches every value.
\<close>

theorem unrecognized_operators_are_ignored:
  "matchesOperators rx docValue operators =
     matchesOperators rx docValue
       (filter (\<lambda>(op, opValue). op \<in> set recognized_operators) operators)
   \<and> (list_all (\<lambda>(op, opValue). op \<notin> set recognized_operators) operators
        \<longrightarrow> matchesOperators rx docValue operators = Inr True)"
  using matchesOperators_recognized [of rx docValue operators]
    matchesOperators_unrecognized [of operators rx docValue]
  by blast

theorem unrecognized_operators_are_ignored_witness:
  "list_all (\<lambda>(op, opValue). op \<notin> set recognized_operators)
     [(''$near'', JNum (Fin 5 0)), (''$startsWith'', JStr ''Jo'')]
   \<and> matchesOperators literal_regex (JStr ''John'')
        [(''$near'', JNum (Fin 5 0)), (''$startsWith'', JStr ''Jo'')] = Inr True"
  using unrecognized_operators_are_ignored
    [of literal_regex "JStr ''John''" "[(''$near'', JNum (Fin 5 0)), (''$startsWith'', JStr ''Jo'')]"]
  by (simp add: recognized_operators_def)

lemma getNestedValue_id [simp]: "getNestedValue doc ''_id'' = opt_prop doc ''_id''"
  by (simp add: getNestedValue_def)

lemma getNestedValue_table [simp]: "getNestedValue doc ''_table'' = opt_prop doc ''_table''"
  by (simp add: getNestedValue_def)

lemma strict_eq_not_object [simp]: "\<not> strict_eq a (JObj kvs)" "\<not> strict_eq a (JArr xs)"
  by (cases a; simp)+

lemma matchesFilter_id_only:
  "\<not> nullish doc \<Longrightarrow>
   matchesFilter rx doc [(''_id'', v)] = Inr (strict_eq (get_prop doc ''_id'') v)"
  by (cases v) (auto simp: read_prop_def opt_prop_def)

lemma matchesFilter_id_entry:
  "(''_id'', v) \<in> set flt \<Longrightarrow> matchesFilter rx doc flt = Inr True \<Longrightarrow>
   strict_eq (get_prop doc ''_id'') v"
proof (induction flt)
  case Nil
  then show ?case by simp
next
  case (Cons kv flt)
  obtain k u where kv: "kv = (k, u)" by (cases kv)
  show ?case
  proof (cases "kv = (''_id'', v)")
    case True
    with Cons.prems(2) show ?thesis
      by (auto simp: read_prop_def split: sum.splits if_splits)
  next
    case False
    with Cons.prems(1) have mem: "(''_id'', v) \<in> set flt" by auto
    from Cons.prems(2) have "matchesFilter rx doc flt = Inr True"
      unfolding kv by (auto simp: Let_def split: sum.splits if_splits jsvalue.splits)
    with Cons.IH mem show ?thesis by blast
  qed
qed

text \<open>
  Claim C8. \<open>matchesFilter\<close> decides the \<open>_id\<close> condition by \<open>===\<close> between the
  document's \<open>_id\<close> and the value the predicate gives for \<open>_id\<close>, whatever that value is
  (an operator object included): a predicate that consists of the \<open>_id\<close> field alone
  returns exactly that comparison, and a predicate that contains an \<open>_id\<close> field matches
  only if the comparison holds.
\<close>

theorem id_is_compared_by_strict_equality:
  "(\<not> nullish doc \<longrightarrow>
      matchesFilter rx doc [(''_id'', v)] = Inr (strict_eq (get_prop doc ''_id'') v))
   \<and> ((''_id'', v) \<in> set flt \<longrightarrow> matchesFilter rx doc flt = Inr True
        \<longrightarrow> strict_eq (get_prop doc ''_id'') v)"
  using matchesFilter_id_only [of doc rx v] matchesFilter_id_entry [of v flt rx doc]
  by blast

theorem id_is_compared_by_strict_equality_witness:
  "\<not> nullish (JObj [(''_id'', JStr ''a1''), (''_table'', JStr ''users''), (''age'', JNum (Fin 3 1))])
   \<and> matchesFilter literal_regex
        (JObj [(''_id'', JStr ''a1''), (''_table'', JStr ''users''), (''age'', JNum (Fin 3 1))])
        [(''_id'', JObj [(''$ne'', JStr ''zz'')])] = Inr False
   \<and> (''_id'', JStr ''a1'') \<in> set [(''age'', JObj [(''$gt'', JNum (Fin 18 0))]), (''_id'', JStr ''a1'')]
   \<and> matchesFilter literal_regex
        (JObj [(''_id'', JStr ''a1''), (''_table'', JStr ''users''), (''age'', JNum (Fin 3 1))])
        [(''age'', JObj [(''$gt'', JNum (Fin 18 0))]), (''_id'', JStr ''a1'')] = Inr True
   \<and> strict_eq
        (get_prop (JObj [(''_id'', JStr ''a1''), (''_table'', JStr ''users''), (''age'', JNum (Fin 3 1))]) ''_id'')
        (JStr ''a1'')"
  using id_is_compared_by_strict_equality
    [of "JObj [(''_id'', JStr ''a1''), (''_table'', JStr ''users''), (''age'', JNum (Fin 3 1))]"
        literal_regex "JObj [(''$ne'', JStr ''zz'')]" "[]"]
    id_is_compared_by_strict_equality
    [of "JObj [(''_id'', JStr ''a1''), (''_table'', JStr ''users''), (''age'', JNum (Fin 3 1))]"
        literal_regex "JStr ''a1''" "[(''age'', JObj [(''$gt'', JNum (Fin 18 0))]), (''_id'', JStr ''a1'')]"]
  by (simp add: nullish_def getNestedValue_def opt_prop_def read_prop_def js_gt_def js_less_def scaled_def)

subsection \<open>The example store\<close>

text \<open>The example store, computed once; later evaluations start from this value.\<close>

lemma demo_store_value:
  "demo_store =
     \<lparr> prefix = ''TDB:'', maxRetries = 3, initialized = True,
       messageIndex =
         [(JStr ''u1'', JNum (Fin 3 0)), (JStr ''u2'', JNum (Fin 6 0)),
          (JStr ''u3'', JNum (Fin 1 1)), (JStr ''o1'', JNum (Fin 14 0))],
       documentCache =
         [(JStr ''u1'', JObj (john @ [(''_table'', JStr ''users'')])),
          (JStr ''u2'', JObj (jane @ [(''_table'', JStr ''users'')])),
          (JStr ''u3'', JObj (joe @ [(''_table'', JStr ''users'')])),
          (JStr ''o1'', JObj (invoice @ [(''_table'', JStr ''orders'')]))],
       indexMessageId = Some 17, clock = 17,
       channel =
         [(3, encodeDocument (JObj (john @ [(''_table'', JStr ''users'')])) ''TDB:''),
          (6, encodeDocument (JObj (jane @ [(''_table'', JStr ''users'')])) ''TDB:''),
          (10, encodeDocument (JObj (joe @ [(''_table'', JStr ''users'')])) ''TDB:''),
          (14, encodeDocument (JObj (invoice @ [(''_table'', JStr ''orders'')])) ''TDB:''),
          (17, encodeDocument
                 (JObj [(''_id'', JStr ''__INDEX__''),
                        (''_table'', JStr ''__SYSTEM__''),
                        (''messageIndex'',
                         JArr [JArr [JStr ''u1'', JNum (Fin 3 0)], JArr [JStr ''u2'', JNum (Fin 6 0)],
                               JArr [JStr ''u3'', JNum (Fin 1 1)], JArr [JStr ''o1'', JNum (Fin 14 0)]]),
                        (''documents'',
                         JArr [JObj (john @ [(''_table'', JStr ''users'')]),
                               JObj (jane @ [(''_table'', JStr ''users'')]),
                               JObj (joe @ [(''_table'', JStr ''users'')]),
                               JObj (invoice @ [(''_table'', JStr ''orders'')])]),
                        (''updatedAt'', JNum (Fin 1014 0))])
                 ''TDB:INDEX:'')] \<rparr>"
  by code_simp

declare demo_store_value [code]

lemma demo_store_initialized: "initialized demo_store"
  by code_simp


lemma demo_store_index:
  "messageIndex demo_store =
     [(JStr ''u1'', JNum (Fin 3 0)), (JStr ''u2'', JNum (Fin 6 0)), (JStr ''u3'', JNum (Fin 1 1)),
      (JStr ''o1'', JNum (Fin 14 0))]"
  by code_simp

lemma demo_store_config:
  "prefix demo_store = ''TDB:'' \<and> maxRetries demo_store = 3 \<and> clock demo_store = 17
   \<and> indexMessageId demo_store = Some 17"
  by code_simp

subsection \<open>\<open>find\<close>\<close>

lemma scan_table:
  "scan rx [(''_table'', JStr t)] docs =
   Inr (filter (\<lambda>d. strict_eq (opt_prop d ''_table'') (JStr t)) docs)"
  by (induction docs) simp_all

lemma reloadCacheFromIndex_id [simp]: "reloadCacheFromIndex s = s"
  by (simp add: reloadCacheFromIndex_def)

lemma ensureInitialized_initialized [simp]:
  "initialized s \<Longrightarrow> ensureInitialized w s = (Inr (), s)"
  by (simp add: ensureInitialized_def)

lemma find_body_all: "find_body w [] table s = (Inr (table_documents s table), s)"
  by (simp add: find_body_def scan_table table_documents_def)

lemma find_all_initialized:
  "initialized s \<Longrightarrow> find w [] table s = (Inr (table_documents s table), s)"
  by (simp add: find_def find_body_all)


lemma find_body_empty: "documentCache s = [] \<Longrightarrow> find_body w flt table s = (Inr [], s)"
  by (simp add: find_body_def)

lemma find_empty:
  "initialized s \<Longrightarrow> documentCache s = [] \<Longrightarrow> find w flt table s = (Inr [], s)"
  by (simp add: find_def find_body_empty)

lemma initialize_clears:
  "\<not> initialized s \<Longrightarrow> initialize w s = (Inr u, s') \<Longrightarrow> documentCache s' = [] \<and> initialized s'"
  by (auto simp: initialize_def loadMessageIndex_def split: option.splits error.splits)

lemma find_after_start:
  assumes "\<not> initialized s" and "find w flt table s = (Inr docs, s')"
  shows "docs = [] \<and> documentCache s' = []"
proof -
  obtain r s1 where i: "initialize w s = (r, s1)" by (cases "initialize w s")
  with assms obtain u where r: "r = Inr u"
    by (cases r) (auto simp: find_def ensureInitialized_def)
  from initialize_clears [OF assms(1) i [unfolded r]]
  have s1: "documentCache s1 = []" "initialized s1" by simp_all
  from assms i r have "find_body w flt table s1 = (Inr docs, s')"
    by (auto simp: find_def ensureInitialized_def split: prod.splits sum.splits error.splits)
  with find_body_empty [OF s1(1)] s1 show ?thesis by simp
qed





text \<open>
  Claim C6, as the code has it. When \<open>find\<close> is called while the Index is empty, the
  store calls \<open>reloadCacheFromIndex\<close> once; that method reads no channel history and
  changes nothing, so the second pass runs over the same empty Index and \<open>find\<close> returns
  the empty list, whatever the channel holds. The same holds when the call to \<open>find\<close>
  is the one that initializes the store.
\<close>

theorem find_on_empty_index_rebuilds_nothing:
  "reloadCacheFromIndex s = s
   \<and> (initialized s \<longrightarrow> documentCache s = [] \<longrightarrow> find w flt table s = (Inr [], s))
   \<and> (\<not> initialized s \<longrightarrow> find w flt table s = (Inr docs, s')
        \<longrightarrow> docs = [] \<and> documentCache s' = [])"
  using find_empty [of s w flt table] find_after_start [of s w flt table docs s']
  by simp

theorem find_on_empty_index_rebuilds_nothing_witness:
  "initialized (snd (initialize (scripted_world [] []) (TelegramDB None None)))
   \<and> documentCache (snd (initialize (scripted_world [] []) (TelegramDB None None))) = []
   \<and> find (scripted_world [] []) [(''name'', JStr ''John'')] ''users''
        (snd (initialize (scripted_world [] []) (TelegramDB None None)))
      = (Inr [], snd (initialize (scripted_world [] []) (TelegramDB None None)))
   \<and> \<not> initialized (close demo_store)
   \<and> fst (find (scripted_world [] []) [] ''users'' (close demo_store)) = Inr []
   \<and> documentCache (snd (find (scripted_world [] []) [] ''users'' (close demo_store))) = []"
proof -
  let ?w = "scripted_world [] []"
  let ?s = "snd (initialize ?w (TelegramDB None None))"
  have i: "initialized ?s" and c: "documentCache ?s = []"
    by code_simp+
  have n: "\<not> initialized (close demo_store)"
    by (simp add: close_def)
  let ?s' = "snd (find ?w [] ''users'' (close demo_store))"
  have fr: "fst (find ?w [] ''users'' (close demo_store)) = Inr []"
    by code_simp
  then have f: "find ?w [] ''users'' (close demo_store) = (Inr [], ?s')"
    by (simp add: prod_eq_iff)
  from find_on_empty_index_rebuilds_nothing [of ?s ?w "[(''name'', JStr ''John'')]" "''users''" "[]" ?s]
    find_on_empty_index_rebuilds_nothing [of "close demo_store" ?w "[]" "''users''" "[]" ?s']
    i c n f fr
  show ?thesis by blast
qed

theorem find_on_empty_index_rebuilds_nothing_counterexample:
  "decodeDocument (snd (hd (channel (close demo_store)))) ''TDB:'' =
     JObj [(''_id'', JStr ''u1''), (''name'', JStr ''John''),
           (''age'', JNum (Fin 3 1)), (''_table'', JStr ''users'')]
   \<and> documentCache (snd (initialize (scripted_world [] []) (close demo_store))) = []
   \<and> fst (find (scripted_world [] []) [] ''users'' (close demo_store)) = Inr []
   \<and> documentCache (snd (find (scripted_world [] []) [] ''users'' (close demo_store))) = []
   \<and> channel (snd (find (scripted_world [] []) [] ''users'' (close demo_store))) =
       channel (close demo_store)"
  by code_simp

subsection \<open>\<open>update\<close>: the new document\<close>










subsection \<open>Calls to the channel and retries\<close>

lemma tick_fields [simp]:
  "prefix (tick s) = prefix s" "maxRetries (tick s) = maxRetries s"
  "initialized (tick s) = initialized s" "messageIndex (tick s) = messageIndex s"
  "documentCache (tick s) = documentCache s" "indexMessageId (tick s) = indexMessageId s"
  "clock (tick s) = Suc (clock s)"
  by (simp_all add: tick_def)

lemma call_send_fields:
  "call_send w p s = (r, s') \<Longrightarrow>
   prefix s' = prefix s \<and> maxRetries s' = maxRetries s \<and> initialized s' = initialized s \<and>
   messageIndex s' = messageIndex s \<and> documentCache s' = documentCache s \<and>
   indexMessageId s' = indexMessageId s \<and> clock s' = Suc (clock s)"
  by (auto simp: call_send_def split: sum.splits)

lemma call_delete_fields:
  "call_delete w m s = (r, s') \<Longrightarrow>
   prefix s' = prefix s \<and> maxRetries s' = maxRetries s \<and> initialized s' = initialized s \<and>
   messageIndex s' = messageIndex s \<and> documentCache s' = documentCache s \<and>
   indexMessageId s' = indexMessageId s \<and> clock s' = Suc (clock s)"
  by (auto simp: call_delete_def split: option.splits)

lemma snd_call_delete_fields [simp]:
  "prefix (snd (call_delete w m s)) = prefix s"
  "maxRetries (snd (call_delete w m s)) = maxRetries s"
  "initialized (snd (call_delete w m s)) = initialized s"
  "messageIndex (snd (call_delete w m s)) = messageIndex s"
  "documentCache (snd (call_delete w m s)) = documentCache s"
  "indexMessageId (snd (call_delete w m s)) = indexMessageId s"
  "clock (snd (call_delete w m s)) = Suc (clock s)"
  using call_delete_fields [of w m s "fst (call_delete w m s)" "snd (call_delete w m s)"]
  by simp_all

lemma retry_loop_fields:
  "retry_loop w p n lastError s = (r, s') \<Longrightarrow>
   prefix s' = prefix s \<and> maxRetries s' = maxRetries s \<and> initialized s' = initialized s \<and>
   messageIndex s' = messageIndex s \<and> documentCache s' = documentCache s \<and>
   indexMessageId s' = indexMessageId s"
proof (induction n arbitrary: lastError s)
  case 0 then show ?case by simp
next
  case (Suc n)
  obtain r1 s1 where cs: "call_send w p s = (r1, s1)" by (cases "call_send w p s")
  note f = call_send_fields [OF cs]
  show ?case
  proof (cases r1)
    case (Inl e)
    with Suc.prems cs have "retry_loop w p n (Some e) s1 = (r, s')" by simp
    from Suc.IH [OF this] f show ?thesis by simp
  next
    case (Inr mid)
    with Suc.prems cs f show ?thesis by auto
  qed
qed

lemma retry_loop_thrown:
  "retry_loop w p n lastError s = (Inl thrown, s') \<Longrightarrow> thrown = None \<Longrightarrow> n = 0 \<and> lastError = None"
proof (induction n arbitrary: lastError s)
  case 0 then show ?case by simp
next
  case (Suc n)
  obtain r1 s1 where cs: "call_send w p s = (r1, s1)" by (cases "call_send w p s")
  show ?case
  proof (cases r1)
    case (Inl e)
    with Suc.prems cs have "retry_loop w p n (Some e) s1 = (Inl thrown, s')" by simp
    from Suc.IH [OF this Suc.prems(2)] show ?thesis by simp
  next
    case (Inr mid)
    with Suc.prems cs show ?thesis by auto
  qed
qed

lemma retryOperation_thrown:
  "0 < retries \<Longrightarrow> retryOperation w p retries s = (Inl thrown, s') \<Longrightarrow> \<exists>e. thrown = Some e"
  using retry_loop_thrown [of w p "nat retries" None s thrown s']
  by (cases thrown) (auto simp: retryOperation_def)

lemma retryOperation_fields:
  "retryOperation w p n s = (r, s') \<Longrightarrow>
   prefix s' = prefix s \<and> maxRetries s' = maxRetries s \<and> initialized s' = initialized s \<and>
   messageIndex s' = messageIndex s \<and> documentCache s' = documentCache s \<and>
   indexMessageId s' = indexMessageId s"
  unfolding retryOperation_def by (rule retry_loop_fields)

lemma retry_loop_exhausted:
  "\<forall>i<n. sendMessage w (clock s + i) p = Inl (errs i) \<Longrightarrow> 0 < n \<Longrightarrow>
   retry_loop w p n lastError s = (Inl (Some (errs (n - 1))), s\<lparr>clock := clock s + n\<rparr>)"
proof (induction n arbitrary: lastError s errs)
  case 0 then show ?case by simp
next
  case (Suc n)
  from Suc.prems(1) have first: "sendMessage w (clock s) p = Inl (errs 0)" by force
  then have cs: "call_send w p s = (Inl (errs 0), tick s)" by (simp add: call_send_def)
  show ?case
  proof (cases n)
    case 0
    with cs show ?thesis by (simp add: tick_def)
  next
    case (Suc k)
    have "\<forall>i<n. sendMessage w (clock (tick s) + i) p = Inl ((\<lambda>i. errs (Suc i)) i)"
      using Suc.prems(1) by auto
    from Suc.IH [OF this, of "Some (errs 0)"] Suc
    have "retry_loop w p n (Some (errs 0)) (tick s) = (Inl (Some (errs n)), (tick s)\<lparr>clock := clock (tick s) + n\<rparr>)"
      by simp
    with cs show ?thesis by (simp add: tick_def)
  qed
qed

lemma catch_result_Some [simp]:
  "catch_result what (Some (Error m)) = Inr (failed (what @ '': '' @ m) (Some (Error m)))"
  by (simp add: catch_result_def message_of_def)

lemma catch_result_Some_ex: "\<exists>r. catch_result what (Some e) = Inr r"
  by (cases e) simp

lemma saveMessageIndex_fields [simp]:
  "prefix (saveMessageIndex w s) = prefix s"
  "maxRetries (saveMessageIndex w s) = maxRetries s"
  "initialized (saveMessageIndex w s) = initialized s"
  "messageIndex (saveMessageIndex w s) = messageIndex s"
  "documentCache (saveMessageIndex w s) = documentCache s"
  by (auto simp: saveMessageIndex_def Let_def call_send_def split: option.splits prod.splits sum.splits if_splits)

lemma generateId_fields [simp]:
  "prefix (snd (generateId w s)) = prefix s"
  "maxRetries (snd (generateId w s)) = maxRetries s"
  "initialized (snd (generateId w s)) = initialized s"
  "messageIndex (snd (generateId w s)) = messageIndex s"
  "documentCache (snd (generateId w s)) = documentCache s"
  by (simp_all add: generateId_def)

lemma insert_body_no_raise:
  assumes "0 < maxRetries s"
  shows "\<exists>r s'. insert_body w doc table s = (Inr r, s')"
proof -
  define given where "given = get_prop (JObj doc) ''_id''"
  define p where "p = (if truthy given then (given, s)
                       else (case generateId w s of (i, s') \<Rightarrow> (JStr i, s')))"
  obtain doc_id s1 where p: "p = (doc_id, s1)" by (cases p)
  have mr: "maxRetries s1 = maxRetries s"
    using p by (auto simp: p_def generateId_def split: if_splits)
  define msg where "msg = encodeDocument (JObj (set_field ''_table'' (JStr table) (set_field ''_id'' doc_id doc))) (prefix s1)"
  obtain r s2 where ro: "retryOperation w msg (maxRetries s1) s1 = (r, s2)"
    by (cases "retryOperation w msg (maxRetries s1) s1")
  have unfold: "insert_body w doc table s =
      (case retryOperation w msg (maxRetries s1) s1 of
         (Inl thrown, s2) \<Rightarrow> (catch_result ''Failed to insert document'' thrown, s2)
       | (Inr mid, s2) \<Rightarrow>
           (let s3 = s2\<lparr>messageIndex := map_set doc_id (message_id_value mid) (messageIndex s2),
                        documentCache := map_set doc_id (JObj (set_field ''_table'' (JStr table) (set_field ''_id'' doc_id doc))) (documentCache s2)\<rparr>;
                s4 = saveMessageIndex w s3
            in (Inr (succeeded ''Document inserted successfully''
                       (JObj (set_field ''_messageId'' (message_id_value mid) (set_field ''_table'' (JStr table) (set_field ''_id'' doc_id doc))))), s4)))"
    using p unfolding insert_body_def Let_def msg_def p_def given_def
    by (simp split: prod.splits)
  show ?thesis
  proof (cases r)
    case (Inl thrown)
    with ro assms mr obtain e where "thrown = Some e"
      using retryOperation_thrown [of "maxRetries s1" w msg s1 thrown s2] by auto
    with Inl ro unfold catch_result_Some_ex [of "''Failed to insert document''" e]
    show ?thesis by auto
  next
    case (Inr mid)
    with ro unfold show ?thesis by (simp add: Let_def)
  qed
qed

subsection \<open>Errors of the operations\<close>

lemma update_loop_fields:
  "update_loop w patch repl docs acc s = (r, s') \<Longrightarrow>
   prefix s' = prefix s \<and> maxRetries s' = maxRetries s \<and> initialized s' = initialized s"
proof (induction docs arbitrary: acc s)
  case Nil then show ?case by simp
next
  case (Cons d docs)
  show ?case
  proof (cases "read_prop d ''_id''")
    case (Inl e)
    with Cons.prems show ?thesis by simp
  next
    case (Inr i)
    define s1 where "s1 = (if truthy (map_get (messageIndex s) i) then snd (call_delete w (map_get (messageIndex s) i) s) else s)"
    define upd where "upd = updated_document repl d i patch"
    have f1: "prefix s1 = prefix s" "maxRetries s1 = maxRetries s" "initialized s1 = initialized s"
      by (simp_all add: s1_def)
    obtain r2 s2 where ro: "retryOperation w (encodeDocument upd (prefix s1)) (maxRetries s1) s1 = (r2, s2)"
      by (cases "retryOperation w (encodeDocument upd (prefix s1)) (maxRetries s1) s1")
    note f2 = retryOperation_fields [OF ro]
    show ?thesis
    proof (cases r2)
      case (Inl thrown)
      with Cons.prems Inr ro f1 f2 show ?thesis
        by (simp add: Let_def s1_def [symmetric] upd_def [symmetric])
    next
      case (Inr mid)
      define s3 where "s3 = s2\<lparr>messageIndex := map_set (get_prop upd ''_id'') (message_id_value mid) (messageIndex s2),
                               documentCache := map_set (get_prop upd ''_id'') upd (documentCache s2)\<rparr>"
      from Cons.prems \<open>read_prop d ''_id'' = Inr i\<close> ro Inr
      have "update_loop w patch repl docs (acc @ [upd]) s3 = (r, s')"
        by (simp add: Let_def s1_def [symmetric] upd_def [symmetric] s3_def)
      from Cons.IH [OF this] f1 f2 show ?thesis by (simp add: s3_def)
    qed
  qed
qed

lemma update_loop_thrown:
  "0 < maxRetries s \<Longrightarrow> update_loop w patch repl docs acc s = (Inl thrown, s') \<Longrightarrow> \<exists>e. thrown = Some e"
proof (induction docs arbitrary: acc s)
  case Nil then show ?case by simp
next
  case (Cons d docs)
  show ?case
  proof (cases "read_prop d ''_id''")
    case (Inl e)
    with Cons.prems show ?thesis by auto
  next
    case (Inr i)
    define s1 where "s1 = (if truthy (map_get (messageIndex s) i) then snd (call_delete w (map_get (messageIndex s) i) s) else s)"
    define upd where "upd = updated_document repl d i patch"
    have f1: "maxRetries s1 = maxRetries s"
      by (simp_all add: s1_def)
    obtain r2 s2 where ro: "retryOperation w (encodeDocument upd (prefix s1)) (maxRetries s1) s1 = (r2, s2)"
      by (cases "retryOperation w (encodeDocument upd (prefix s1)) (maxRetries s1) s1")
    note f2 = retryOperation_fields [OF ro]
    show ?thesis
    proof (cases r2)
      case (Inl t)
      with Cons.prems(2) Inr ro have "t = thrown"
        by (simp add: Let_def s1_def [symmetric] upd_def [symmetric])
      with retryOperation_thrown [OF _ ro [unfolded Inl]] Cons.prems(1) f1 show ?thesis by simp
    next
      case (Inr mid)
      define s3 where "s3 = s2\<lparr>messageIndex := map_set (get_prop upd ''_id'') (message_id_value mid) (messageIndex s2),
                               documentCache := map_set (get_prop upd ''_id'') upd (documentCache s2)\<rparr>"
      from Cons.prems(2) \<open>read_prop d ''_id'' = Inr i\<close> ro Inr
      have "update_loop w patch repl docs (acc @ [upd]) s3 = (Inl thrown, s')"
        by (simp add: Let_def s1_def [symmetric] upd_def [symmetric] s3_def)
      moreover have "0 < maxRetries s3" using Cons.prems(1) f1 f2 by (simp add: s3_def)
      ultimately show ?thesis using Cons.IH by blast
    qed
  qed
qed

lemma delete_loop_thrown:
  "delete_loop w docs n s = (Inl thrown, s') \<Longrightarrow> \<exists>e. thrown = Some e"
proof (induction docs arbitrary: n s)
  case Nil then show ?case by simp
next
  case (Cons d docs)
  from Cons.prems show ?case
    by (auto simp: Let_def split: sum.splits if_splits prod.splits option.splits dest: Cons.IH)
qed

lemma insert_body_fields:
  "insert_body w doc table s = (r, s') \<Longrightarrow>
   prefix s' = prefix s \<and> maxRetries s' = maxRetries s \<and> initialized s' = initialized s"
  by (auto simp: insert_body_def Let_def generateId_def split: prod.splits sum.splits if_splits
      dest!: retryOperation_fields)

lemma insert_no_raise:
  "initialized s \<Longrightarrow> 0 < maxRetries s \<Longrightarrow> \<exists>r s'. insert w doc table s = (Inr r, s')"
  using insert_body_no_raise [of s w doc table] by (simp add: insert_def)

lemma insert_fields:
  "initialized s \<Longrightarrow> insert w doc table s = (r, s') \<Longrightarrow>
   maxRetries s' = maxRetries s \<and> initialized s'"
  using insert_body_fields [of w doc table s r s'] by (simp add: insert_def)

lemma insertMany_loop_no_raise:
  "initialized s \<Longrightarrow> 0 < maxRetries s \<Longrightarrow>
   \<exists>rs s'. insertMany_loop w docs table stop results s = (Inr rs, s')"
proof (induction docs arbitrary: results s)
  case Nil then show ?case by simp
next
  case (Cons d docs)
  from insert_no_raise [OF Cons.prems] obtain r s1 where i: "insert w d table s = (Inr r, s1)" by blast
  from insert_fields [OF Cons.prems(1) i] Cons.prems(2) have "initialized s1" "0 < maxRetries s1" by simp_all
  from Cons.IH [OF this] i show ?case by simp
qed

lemma resolve_state: "initialized s \<Longrightarrow> snd (resolve w flt table s) = s"
  by (simp add: resolve_def find_all_initialized)

lemma resolve_Inl: "initialized s \<Longrightarrow> resolve w flt table s = (r, s') \<Longrightarrow> s' = s"
  using resolve_state [of s w flt table] by simp

lemma update_no_raise:
  assumes "initialized s" "0 < maxRetries s"
  shows "\<exists>r s'. update w flt patch table options s = (Inr r, s')"
proof -
  obtain rb sb where ub: "update_body w flt patch table options s = (rb, sb)"
    by (cases "update_body w flt patch table options s")
  have "\<exists>e. thrown = Some e" if "rb = Inl thrown" for thrown
  proof -
    obtain rr sr where rs: "resolve w flt table s = (rr, sr)" by (cases "resolve w flt table s")
    have sr: "sr = s" using resolve_Inl [OF assms(1) rs] .
    show ?thesis
    proof (cases rr)
      case (Inl e)
      with ub rs that show ?thesis by (auto simp: update_body_def)
    next
      case (Inr docs)
      with ub rs sr have ud: "update_documents w flt patch table options docs s = (rb, sb)"
        by (simp add: update_body_def)
      show ?thesis
      proof (cases "docs = []")
        case True
        with ud that show ?thesis
          by (auto simp: update_documents_def Let_def split: if_splits prod.splits sum.splits)
      next
        case False
        with ud that have "update_loop w patch (replace options) docs [] s = (Inl thrown, sb)"
          by (auto simp: update_documents_def split: prod.splits sum.splits)
        from update_loop_thrown [OF assms(2) this] show ?thesis .
      qed
    qed
  qed
  then show ?thesis using ub assms(1) catch_result_Some_ex
    by (cases rb) (auto simp: update_def)
qed

lemma delete_no_raise:
  assumes "initialized s"
  shows "\<exists>r s'. delete w flt table s = (Inr r, s')"
proof -
  obtain rb sb where db: "delete_body w flt table s = (rb, sb)"
    by (cases "delete_body w flt table s")
  have "\<exists>e. thrown = Some e" if "rb = Inl thrown" for thrown
    using db that
    by (auto simp: delete_body_def delete_documents_def split: prod.splits sum.splits if_splits
        dest: delete_loop_thrown)
  then show ?thesis using db assms catch_result_Some_ex
    by (cases rb) (auto simp: delete_def)
qed

lemma retryOperation_exhausted:
  "0 < n \<Longrightarrow> \<forall>i<nat n. sendMessage w (clock s + i) p = Inl (errs i) \<Longrightarrow>
   retryOperation w p n s = (Inl (Some (errs (nat n - 1))), s\<lparr>clock := clock s + nat n\<rparr>)"
  unfolding retryOperation_def by (rule retry_loop_exhausted) simp_all

lemma insert_exhausted:
  assumes "initialized s" and "0 < maxRetries s"
    and "given = get_prop (JObj doc) ''_id''"
    and "s1 = (if truthy given then s else tick s)"
    and "doc_id = (if truthy given then given else JStr (fst (generateId w s)))"
    and "payload = encodeDocument (JObj (set_field ''_table'' (JStr table) (set_field ''_id'' doc_id doc))) (prefix s)"
    and "\<forall>i<nat (maxRetries s). sendMessage w (clock s1 + i) payload = Inl (Error (msgs i))"
  shows "insert w doc table s =
     (Inr (failed (''Failed to insert document: '' @ msgs (nat (maxRetries s) - 1))
            (Some (Error (msgs (nat (maxRetries s) - 1))))),
      s1\<lparr>clock := clock s1 + nat (maxRetries s)\<rparr>)"
proof -
  have mr: "maxRetries s1 = maxRetries s" and pf: "prefix s1 = prefix s"
    by (simp_all add: assms(4))
  have ro: "retryOperation w payload (maxRetries s1) s1 =
      (Inl (Some (Error (msgs (nat (maxRetries s) - 1)))), s1\<lparr>clock := clock s1 + nat (maxRetries s)\<rparr>)"
    using retryOperation_exhausted [of "maxRetries s1" w s1 payload "\<lambda>i. Error (msgs i)"] assms(2,7) mr
    by simp
  have "insert_body w doc table s =
      (catch_result ''Failed to insert document'' (Some (Error (msgs (nat (maxRetries s) - 1)))),
       s1\<lparr>clock := clock s1 + nat (maxRetries s)\<rparr>)"
  proof (cases "truthy given")
    case True
    with ro show ?thesis
      unfolding insert_body_def Let_def assms(3,4,5,6) by simp
  next
    case False
    with ro show ?thesis
      unfolding insert_body_def Let_def assms(3,4,5,6)
      by (simp add: generateId_def tick_def)
  qed
  with assms(1) show ?thesis by (simp add: insert_def)
qed

lemma update_loop_append:
  "update_loop w patch repl (pre @ rest) acc s =
     (case update_loop w patch repl pre acc s of
        (Inl t, s1) \<Rightarrow> (Inl t, s1)
      | (Inr acc', s1) \<Rightarrow> update_loop w patch repl rest acc' s1)"
proof (induction pre arbitrary: acc s)
  case Nil show ?case by simp
next
  case (Cons d pre)
  show ?case
    by (simp add: Let_def Cons.IH split: sum.splits prod.splits)
qed

lemma update_aborts:
  assumes init: "initialized s" and pos: "0 < maxRetries s"
    and res: "fst (resolve w flt table s) = Inr (pre @ d # post)"
    and before: "update_loop w patch (replace options) pre [] s = (Inr updatedDocs, s1)"
    and d: "\<not> nullish d"
    and old: "oldMessageId = map_get (messageIndex s1) (get_prop d ''_id'')"
    and s2: "s2 = (if truthy oldMessageId then snd (call_delete w oldMessageId s1) else s1)"
    and payload: "payload = encodeDocument (updated_document (replace options) d (get_prop d ''_id'') patch) (prefix s)"
    and fails: "\<forall>i<nat (maxRetries s). sendMessage w (clock s2 + i) payload = Inl (Error (msgs i))"
  shows "update w flt patch table options s =
     (Inr (failed (''Failed to update documents: '' @ msgs (nat (maxRetries s) - 1))
            (Some (Error (msgs (nat (maxRetries s) - 1))))),
      s2\<lparr>clock := clock s2 + nat (maxRetries s)\<rparr>)"
proof -
  let ?n = "nat (maxRetries s)"
  from update_loop_fields [OF before] have f1: "prefix s1 = prefix s" "maxRetries s1 = maxRetries s"
    by simp_all
  have f2: "prefix s2 = prefix s" "maxRetries s2 = maxRetries s"
    using f1 by (simp_all add: s2)
  have ro: "retryOperation w payload (maxRetries s2) s2 =
      (Inl (Some (Error (msgs (?n - 1)))), s2\<lparr>clock := clock s2 + ?n\<rparr>)"
    using retryOperation_exhausted [of "maxRetries s2" w s2 payload "\<lambda>i. Error (msgs i)"] pos fails f2
    by simp
  have rp: "read_prop d ''_id'' = Inr (get_prop d ''_id'')"
    using d by (simp add: read_prop_def)
  have step: "update_loop w patch (replace options) (d # post) updatedDocs s1 =
      (Inl (Some (Error (msgs (?n - 1)))), s2\<lparr>clock := clock s2 + ?n\<rparr>)"
  proof (cases "truthy oldMessageId")
    case True
    with ro rp f1 f2 show ?thesis
      unfolding old s2 payload by (simp add: Let_def)
  next
    case False
    with ro rp f1 f2 show ?thesis
      unfolding old s2 payload by (simp add: Let_def)
  qed
  have loop: "update_loop w patch (replace options) (pre @ d # post) [] s =
      (Inl (Some (Error (msgs (?n - 1)))), s2\<lparr>clock := clock s2 + ?n\<rparr>)"
    by (simp add: update_loop_append before step del: update_loop.simps)
  have "resolve w flt table s = (Inr (pre @ d # post), s)"
    using res resolve_state [OF init, of w flt table] by (simp add: prod_eq_iff)
  then have "update_body w flt patch table options s =
      (Inl (Some (Error (msgs (?n - 1)))), s2\<lparr>clock := clock s2 + ?n\<rparr>)"
    by (simp add: update_body_def update_documents_def loop)
  then show ?thesis using init by (simp add: update_def)
qed

text \<open>
  Claim C5, as the code has it. On an initialized store with a positive \<open>maxRetries\<close>,
  \<open>insert\<close>, \<open>insertMany\<close>, \<open>update\<close>, \<open>updateById\<close>, \<open>delete\<close>, \<open>deleteById\<close> and
  \<open>deleteAll\<close> never raise: every error is returned inside a failed result, and when all
  \<open>maxRetries\<close> attempts of \<open>insert\<close> to send fail, the result carries the last error and
  the Index is untouched. (\<open>find\<close>, \<open>findOne\<close>, \<open>findById\<close> and \<open>count\<close> rethrow an
  error of the filter evaluation, and every operation raises when the lazy \<open>initialize\<close>
  fails: see the counterexample.)
\<close>

theorem crud_errors_become_failed_results:
  assumes "initialized s" and "0 < maxRetries s"
  shows "(\<exists>r s'. insert w doc table s = (Inr r, s'))
   \<and> (\<exists>rs s'. insertMany w docs table stopOnError s = (Inr rs, s'))
   \<and> (\<exists>r s'. update w flt patch table options s = (Inr r, s'))
   \<and> (\<exists>r s'. updateById w ident patch table options s = (Inr r, s'))
   \<and> (\<exists>r s'. delete w flt table s = (Inr r, s'))
   \<and> (\<exists>r s'. deleteById w ident table s = (Inr r, s'))
   \<and> (\<exists>r s'. deleteAll w table s = (Inr r, s'))
   \<and> (let given = get_prop (JObj doc) ''_id'';
           s1 = (if truthy given then s else tick s);
           doc_id = (if truthy given then given else JStr (fst (generateId w s)));
           payload = encodeDocument (JObj (set_field ''_table'' (JStr table) (set_field ''_id'' doc_id doc))) (prefix s)
       in (\<forall>i<nat (maxRetries s). sendMessage w (clock s1 + i) payload = Inl (Error (msgs i))) \<longrightarrow>
          insert w doc table s =
            (Inr (failed (''Failed to insert document: '' @ msgs (nat (maxRetries s) - 1))
                   (Some (Error (msgs (nat (maxRetries s) - 1))))),
             s1\<lparr>clock := clock s1 + nat (maxRetries s)\<rparr>))"
proof -
  have many: "\<exists>rs s'. insertMany w docs table stopOnError s = (Inr rs, s')"
    using insertMany_loop_no_raise [OF assms, of w docs table stopOnError "[]"] assms(1)
    by (simp add: insertMany_def)
  show ?thesis
    using insert_no_raise [OF assms, of w doc table] many
      update_no_raise [OF assms, of w flt patch table options]
      update_no_raise [OF assms, of w "[(''_id'', JStr ident)]" patch table options]
      delete_no_raise [OF assms(1), of w flt table]
      delete_no_raise [OF assms(1), of w "[(''_id'', JStr ident)]" table]
      delete_no_raise [OF assms(1), of w "[]" table]
      insert_exhausted [OF assms refl refl refl refl, of w doc table msgs]
    by (simp add: updateById_def deleteById_def deleteAll_def Let_def)
qed

lemma send_faults:
  "sendMessage (scripted_world fs ds) t p = (if t \<in> set fs then Inl (Error ''send failed'') else Inr (Suc t))"
  by (simp add: scripted_world_def)

theorem crud_errors_become_failed_results_witness:
  "initialized demo_store \<and> 0 < maxRetries demo_store
   \<and> nat (maxRetries demo_store) = 3
   \<and> sendMessage (scripted_world [17, 18, 19] []) (clock demo_store + 0)
         (encodeDocument (JObj [(''_id'', JStr ''u9''), (''name'', JStr ''Zoe''), (''_table'', JStr ''users'')]) ''TDB:'')
       = Inl (Error ''send failed'')
   \<and> sendMessage (scripted_world [17, 18, 19] []) (clock demo_store + 1)
         (encodeDocument (JObj [(''_id'', JStr ''u9''), (''name'', JStr ''Zoe''), (''_table'', JStr ''users'')]) ''TDB:'')
       = Inl (Error ''send failed'')
   \<and> sendMessage (scripted_world [17, 18, 19] []) (clock demo_store + 2)
         (encodeDocument (JObj [(''_id'', JStr ''u9''), (''name'', JStr ''Zoe''), (''_table'', JStr ''users'')]) ''TDB:'')
       = Inl (Error ''send failed'')
   \<and> insert (scripted_world [17, 18, 19] []) [(''_id'', JStr ''u9''), (''name'', JStr ''Zoe'')] ''users'' demo_store
       = (Inr \<lparr> success = False, message = Some ''Failed to insert document: send failed'',
                 data = JUndefined, error = Some (Error ''send failed'') \<rparr>,
          demo_store\<lparr>clock := 20\<rparr>)"
proof -
  let ?w = "scripted_world [17, 18, 19] []"
  let ?doc = "[(''_id'', JStr ''u9''), (''name'', JStr ''Zoe'')]"
  have pos: "0 < maxRetries demo_store" by (simp add: demo_store_config)
  have fails: "\<forall>i<nat (maxRetries demo_store).
         sendMessage ?w (clock demo_store + i)
           (encodeDocument (JObj [(''_id'', JStr ''u9''), (''name'', JStr ''Zoe''), (''_table'', JStr ''users'')]) ''TDB:'')
         = Inl (Error ''send failed'')"
    by (auto simp: demo_store_config send_faults)
  from crud_errors_become_failed_results
    [OF demo_store_initialized pos, of ?w ?doc "''users''" "[]" False "[]" "[]"
       "\<lparr>upsert = False, replace = False\<rparr>" "''u1''" "\<lambda>i. ''send failed''"]
    fails demo_store_initialized pos
  show ?thesis
    by (simp add: Let_def demo_store_config failed_def send_faults)
qed

theorem crud_never_raise_counterexample:
  "fst (find (scripted_world [] []) [(''name'', JObj [(''$regex'', JStr ''('')])] ''users'' demo_store)
     = Inl (Error ''Failed to find documents: Invalid regular expression: /(/: Unterminated group'')
   \<and> fst (count (scripted_world [] []) [(''name'', JObj [(''$regex'', JStr ''('')])] ''users'' demo_store)
     = Inl (Error ''Invalid regular expression: /(/: Unterminated group'')
   \<and> fst (insert offline_world john ''users'' (TelegramDB None None))
     = Inl (Error ''Failed to initialize Telegram DB: Error: 401: Unauthorized'')"
  by code_simp

text \<open>
  Claim C3, as the code has it. In \<open>update\<close> with several matching documents, when the
  send for one match fails at every attempt, the operation stops there: it returns a
  failed result that carries the last send error and no document list; the matches
  before it stay updated in the Index, the failing match and the matches after it are
  left as they were (the old channel message of the failing match has already been
  deleted, best effort).
\<close>

theorem update_aborts_at_first_failed_send:
  assumes "initialized s" and "0 < maxRetries s"
    and "fst (resolve w flt table s) = Inr (pre @ d # post)"
    and "update_loop w patch (replace options) pre [] s = (Inr updatedDocs, s1)"
    and "\<not> nullish d"
  shows "let oldMessageId = map_get (messageIndex s1) (get_prop d ''_id'');
             s2 = (if truthy oldMessageId then snd (call_delete w oldMessageId s1) else s1);
             payload = encodeDocument (updated_document (replace options) d (get_prop d ''_id'') patch) (prefix s)
         in (\<forall>i<nat (maxRetries s). sendMessage w (clock s2 + i) payload = Inl (Error (msgs i))) \<longrightarrow>
            update w flt patch table options s =
              (Inr (failed (''Failed to update documents: '' @ msgs (nat (maxRetries s) - 1))
                     (Some (Error (msgs (nat (maxRetries s) - 1))))),
               s2\<lparr>clock := clock s2 + nat (maxRetries s)\<rparr>)
            \<and> documentCache s2 = documentCache s1 \<and> messageIndex s2 = messageIndex s1"
  using update_aborts [OF assms refl refl refl, of msgs]
  by (simp add: Let_def)

theorem update_aborts_at_first_failed_send_witness:
  "initialized demo_store \<and> 0 < maxRetries demo_store
   \<and> fst (resolve (scripted_world [20, 21, 22] []) [] ''users'' demo_store) =
        Inr ([JObj (john @ [(''_table'', JStr ''users'')])]
             @ JObj (jane @ [(''_table'', JStr ''users'')])
             # [JObj (joe @ [(''_table'', JStr ''users'')])])
   \<and> fst (update_loop (scripted_world [20, 21, 22] []) [(''vip'', JBool True)] False
             [JObj (john @ [(''_table'', JStr ''users'')])] [] demo_store) =
        Inr [JObj (john @ [(''_table'', JStr ''users''), (''vip'', JBool True)])]
   \<and> \<not> nullish (JObj (jane @ [(''_table'', JStr ''users'')]))
   \<and> update (scripted_world [20, 21, 22] []) [] [(''vip'', JBool True)] ''users''
        \<lparr>upsert = False, replace = False\<rparr> demo_store =
       (Inr \<lparr> success = False, message = Some ''Failed to update documents: send failed'',
                data = JUndefined, error = Some (Error ''send failed'') \<rparr>,
        snd (update (scripted_world [20, 21, 22] []) [] [(''vip'', JBool True)] ''users''
               \<lparr>upsert = False, replace = False\<rparr> demo_store))
   \<and> map snd (documentCache (snd (update (scripted_world [20, 21, 22] []) [] [(''vip'', JBool True)] ''users''
               \<lparr>upsert = False, replace = False\<rparr> demo_store))) =
        [JObj (john @ [(''_table'', JStr ''users''), (''vip'', JBool True)]),
         JObj (jane @ [(''_table'', JStr ''users'')]),
         JObj (joe @ [(''_table'', JStr ''users'')]),
         JObj (invoice @ [(''_table'', JStr ''orders'')])]"
proof -
  let ?w = "scripted_world [20, 21, 22] []"
  let ?patch = "[(''vip'', JBool True)]"
  let ?o = "\<lparr>upsert = False, replace = False\<rparr>"
  let ?john = "JObj (john @ [(''_table'', JStr ''users'')])"
  let ?jane = "JObj (jane @ [(''_table'', JStr ''users'')])"
  let ?joe = "JObj (joe @ [(''_table'', JStr ''users'')])"
  let ?done = "[JObj (john @ [(''_table'', JStr ''users''), (''vip'', JBool True)])]"
  define s1 where "s1 = snd (update_loop ?w ?patch (replace ?o) [?john] [] demo_store)"
  define s2 where "s2 =
    (if truthy (map_get (messageIndex s1) (get_prop ?jane ''_id''))
     then snd (call_delete ?w (map_get (messageIndex s1) (get_prop ?jane ''_id'')) s1) else s1)"
  define payload where "payload =
    encodeDocument (updated_document (replace ?o) ?jane (get_prop ?jane ''_id'') ?patch) (prefix demo_store)"
  have pos: "0 < maxRetries demo_store" by (simp add: demo_store_config)
  have res: "fst (resolve ?w [] ''users'' demo_store) = Inr ([?john] @ ?jane # [?joe])"
    by code_simp
  have b: "fst (update_loop ?w ?patch False [?john] [] demo_store) = Inr ?done"
    by code_simp
  then have before: "update_loop ?w ?patch (replace ?o) [?john] [] demo_store = (Inr ?done, s1)"
    by (simp add: prod_eq_iff s1_def)
  have d: "\<not> nullish ?jane" by (simp add: nullish_def)
  have c: "clock s2 = 20" unfolding s2_def s1_def by code_simp
  have fails: "\<forall>i<nat (maxRetries demo_store). sendMessage ?w (clock s2 + i) payload = Inl (Error ''send failed'')"
    unfolding c by (auto simp: demo_store_config send_faults)
  have cache: "map snd (documentCache s1) =
        [JObj (john @ [(''_table'', JStr ''users''), (''vip'', JBool True)]), ?jane, ?joe,
         JObj (invoice @ [(''_table'', JStr ''orders'')])]"
    unfolding s1_def by code_simp
  note inst = update_aborts_at_first_failed_send
    [OF demo_store_initialized pos res before d, of "\<lambda>i. ''send failed''",
     unfolded Let_def, folded s2_def payload_def]
  from inst fails
  have u: "update ?w [] ?patch ''users'' ?o demo_store =
      (Inr (failed (''Failed to update documents: '' @ ''send failed'') (Some (Error ''send failed''))),
       s2\<lparr>clock := clock s2 + nat (maxRetries demo_store)\<rparr>)"
    and k: "documentCache s2 = documentCache s1"
    by blast+
  have r: "update ?w [] ?patch ''users'' ?o demo_store =
       (Inr \<lparr> success = False, message = Some ''Failed to update documents: send failed'',
                data = JUndefined, error = Some (Error ''send failed'') \<rparr>,
        snd (update ?w [] ?patch ''users'' ?o demo_store))"
    by (simp add: u failed_def)
  have "map snd (documentCache (snd (update ?w [] ?patch ''users'' ?o demo_store))) =
        map snd (documentCache s1)"
    by (simp add: u k)
  with cache r demo_store_initialized pos res b d show ?thesis
    by (simp del: update_loop.simps)
qed

theorem update_continues_after_failed_send_counterexample:
  "fst (resolve (scripted_world [20, 21, 22] []) [] ''users'' demo_store) =
     Inr [JObj (john @ [(''_table'', JStr ''users'')]),
          JObj (jane @ [(''_table'', JStr ''users'')]),
          JObj (joe @ [(''_table'', JStr ''users'')])]
   \<and> fst (update (scripted_world [20, 21, 22] []) [] [(''vip'', JBool True)] ''users''
        \<lparr>upsert = False, replace = False\<rparr> demo_store) =
       Inr \<lparr> success = False, message = Some ''Failed to update documents: send failed'',
               data = JUndefined, error = Some (Error ''send failed'') \<rparr>
   \<and> map_get (documentCache (snd (update (scripted_world [20, 21, 22] []) [] [(''vip'', JBool True)] ''users''
               \<lparr>upsert = False, replace = False\<rparr> demo_store))) (JStr ''u3'') =
       JObj (joe @ [(''_table'', JStr ''users'')])"
  by code_simp

subsection \<open>\<open>delete\<close>\<close>





lemma strict_eq_NaN [simp]: "\<not> strict_eq (JNum NaN) b" "\<not> strict_eq a (JNum NaN)"
proof -
  show "\<not> strict_eq (JNum NaN) b" by (cases b) simp_all
  show "\<not> strict_eq a (JNum NaN)"
  proof (cases a)
    case (JNum n)
    then show ?thesis by (cases n) simp_all
  qed simp_all
qed









lemma channel_deletes_Nil [simp]: "channel_deletes w s [] = 0"
  by (simp add: channel_deletes_def)

















end
